theory Spec2Isabelle
  imports Main "HOL-Library.Word" "HOL-Library.Sublist"
begin

section \<open>Go strings, runes and UTF-8\<close>

text \<open>
  A Go \<open>string\<close> is a sequence of bytes. It is modelled by \<open>string\<close>, that is
  \<open>char list\<close>, whose characters are the 256 byte values; \<open>of_char\<close> reads a byte as
  a number. A rune is a Unicode code point, modelled by \<open>nat\<close> (the decoder below only
  produces values up to \<open>0x10FFFF\<close>).

  The functions of this section model the parts of the Go standard library that
  \<open>main.go\<close> calls: \<open>unicode/utf8\<close>, the conversions \<open>[]rune(s)\<close> and
  \<open>string(runes)\<close>, \<open>strings\<close>, \<open>path/filepath\<close> (Unix) and the verbs of
  \<open>fmt\<close> that the program uses. The bit masks and shifts of the library are written
  as \<open>mod\<close> and multiplication by powers of two.
\<close>

type_synonym rune = nat

definition RuneError :: rune where
  "RuneError = 0xFFFD"

definition locb :: nat where "locb = 0x80"
definition hicb :: nat where "hicb = 0xBF"

text \<open>The table \<open>first\<close> of \<open>unicode/utf8\<close>: information about the first byte of
  an encoding. \<open>0xF0\<close> is \<open>as\<close> (ASCII), \<open>0xF1\<close> is \<open>xx\<close> (invalid); otherwise
  the low three bits give the size and the high four bits index \<open>acceptRanges\<close>.\<close>

definition first :: "nat \<Rightarrow> nat" where
  "first b =
     (if b < 0x80 then 0xF0
      else if b < 0xC2 then 0xF1
      else if b < 0xE0 then 0x02
      else if b = 0xE0 then 0x13
      else if b < 0xED then 0x03
      else if b = 0xED then 0x23
      else if b < 0xF0 then 0x03
      else if b = 0xF0 then 0x34
      else if b < 0xF4 then 0x04
      else if b = 0xF4 then 0x44
      else 0xF1)"

definition acceptRanges :: "nat \<Rightarrow> nat \<times> nat" where
  "acceptRanges i =
     (if i = 1 then (0xA0, hicb)
      else if i = 2 then (locb, 0x9F)
      else if i = 3 then (0x90, hicb)
      else if i = 4 then (locb, 0x8F)
      else (locb, hicb))"

text \<open>\<open>utf8.DecodeRuneInString\<close>: the first rune of \<open>s\<close> and its width in bytes;
  \<open>(RuneError, 0)\<close> for the empty string, \<open>(RuneError, 1)\<close> for an invalid
  encoding.\<close>

fun DecodeRuneInString :: "string \<Rightarrow> rune \<times> nat" where
  "DecodeRuneInString [] = (RuneError, 0)"
| "DecodeRuneInString (c0 # cs) =
     (let s0 = of_char c0; x = first s0 in
      if x \<ge> 0xF0 then (if x = 0xF1 then RuneError else s0, 1)
      else
        let sz = x mod 8; accept = acceptRanges (x div 16) in
        if length (c0 # cs) < sz then (RuneError, 1)
        else
          let s1 = of_char (cs ! 0) in
          if s1 < fst accept \<or> snd accept < s1 then (RuneError, 1)
          else if sz \<le> 2 then ((s0 mod 32) * 64 + s1 mod 64, 2)
          else
            let s2 = of_char (cs ! 1) in
            if s2 < locb \<or> hicb < s2 then (RuneError, 1)
            else if sz \<le> 3 then ((s0 mod 16) * 4096 + (s1 mod 64) * 64 + s2 mod 64, 3)
            else
              let s3 = of_char (cs ! 2) in
              if s3 < locb \<or> hicb < s3 then (RuneError, 1)
              else ((s0 mod 8) * 262144 + (s1 mod 64) * 4096 + (s2 mod 64) * 64 + s3 mod 64, 4))"

lemma first_size:
  "first b = 0xF0 \<or> first b = 0xF1 \<or> first b mod 8 = 2 \<or> first b mod 8 = 3 \<or> first b mod 8 = 4"
  by (simp add: first_def)

lemma DecodeRuneInString_size:
  "s \<noteq> [] \<Longrightarrow> 1 \<le> snd (DecodeRuneInString s) \<and> snd (DecodeRuneInString s) \<le> length s"
proof (cases s)
  case Nil
  assume "s \<noteq> []"
  with Nil show ?thesis by simp
next
  case (Cons c0 cs)
  consider "first (of_char c0) \<ge> 0xF0"
    | "first (of_char c0) mod 8 = 2" "first (of_char c0) < 0xF0"
    | "first (of_char c0) mod 8 = 3" "first (of_char c0) < 0xF0"
    | "first (of_char c0) mod 8 = 4" "first (of_char c0) < 0xF0"
    using first_size [of "of_char c0"] by fastforce
  then show ?thesis
  proof cases
    case 1 then show ?thesis unfolding Cons by (auto simp add: Let_def Suc_le_eq)
  next
    case 2 then show ?thesis unfolding Cons by (auto simp add: Let_def Suc_le_eq)
  next
    case 3 then show ?thesis unfolding Cons by (auto simp add: Let_def Suc_le_eq)
  next
    case 4 then show ?thesis unfolding Cons by (auto simp add: Let_def Suc_le_eq)
  qed
qed

text \<open>\<open>utf8.RuneCountInString\<close>: the loop advances by the width of each rune, one
  byte for an invalid encoding.\<close>

function RuneCountInString :: "string \<Rightarrow> nat" where
  "RuneCountInString s =
     (if s = [] then 0
      else 1 + RuneCountInString (drop (snd (DecodeRuneInString s)) s))"
  by pat_completeness auto
termination
proof (relation "measure length")
  show "wf (measure length)" by simp
next
  fix s :: string
  assume "s \<noteq> []"
  then have "1 \<le> snd (DecodeRuneInString s)"
    using DecodeRuneInString_size by blast
  with \<open>s \<noteq> []\<close> show "(drop (snd (DecodeRuneInString s)) s, s) \<in> measure length"
    by simp
qed

declare RuneCountInString.simps [simp del]

text \<open>The conversion \<open>[]rune(s)\<close>: the runes of \<open>s\<close>, \<open>RuneError\<close> for each
  invalid byte.\<close>

function runes_of_string :: "string \<Rightarrow> rune list" where
  "runes_of_string s =
     (if s = [] then []
      else fst (DecodeRuneInString s) #
           runes_of_string (drop (snd (DecodeRuneInString s)) s))"
  by pat_completeness auto
termination
proof (relation "measure length")
  show "wf (measure length)" by simp
next
  fix s :: string
  assume "s \<noteq> []"
  then have "1 \<le> snd (DecodeRuneInString s)"
    using DecodeRuneInString_size by blast
  with \<open>s \<noteq> []\<close> show "(drop (snd (DecodeRuneInString s)) s, s) \<in> measure length"
    by simp
qed

declare runes_of_string.simps [simp del]

text \<open>\<open>utf8.EncodeRune\<close> (the runtime's \<open>encoderune\<close>): surrogates and values
  above \<open>0x10FFFF\<close> are encoded as \<open>RuneError\<close>.\<close>

definition EncodeRune :: "rune \<Rightarrow> string" where
  "EncodeRune r =
     (if r \<le> 0x7F then [char_of r]
      else if r \<le> 0x7FF then [char_of (0xC0 + r div 64), char_of (0x80 + r mod 64)]
      else if r > 0x10FFFF \<or> (0xD800 \<le> r \<and> r \<le> 0xDFFF) then
        [char_of (0xEF::nat), char_of (0xBF::nat), char_of (0xBD::nat)]
      else if r \<le> 0xFFFF then
        [char_of (0xE0 + r div 4096), char_of (0x80 + (r div 64) mod 64),
         char_of (0x80 + r mod 64)]
      else
        [char_of (0xF0 + r div 262144), char_of (0x80 + (r div 4096) mod 64),
         char_of (0x80 + (r div 64) mod 64), char_of (0x80 + r mod 64)])"

text \<open>The conversion \<open>string(runes)\<close>.\<close>

definition string_of_runes :: "rune list \<Rightarrow> string" where
  "string_of_runes rs = concat (map EncodeRune rs)"


section \<open>The package \<open>strings\<close>\<close>

text \<open>\<open>strings.HasPrefix\<close>:
  \<^verbatim>\<open>len(s) >= len(prefix) && s[:len(prefix)] == prefix\<close>.\<close>

definition HasPrefix :: "string \<Rightarrow> string \<Rightarrow> bool" where
  "HasPrefix s pre = (length s \<ge> length pre \<and> take (length pre) s = pre)"

text \<open>\<open>strings.TrimPrefix\<close>.\<close>

definition TrimPrefix :: "string \<Rightarrow> string \<Rightarrow> string" where
  "TrimPrefix s pre = (if HasPrefix s pre then drop (length pre) s else s)"

text \<open>\<open>strings.Index\<close>: the index of the first instance of \<open>sep\<close> in \<open>s\<close>;
  \<open>None\<close> stands for Go's \<open>-1\<close>.\<close>

fun Index :: "string \<Rightarrow> string \<Rightarrow> nat option" where
  "Index [] sep = (if sep = [] then Some 0 else None)"
| "Index (c # cs) sep =
     (if HasPrefix (c # cs) sep then Some 0 else map_option Suc (Index cs sep))"

lemma Index_Some_le: "Index s sep = Some m \<Longrightarrow> m + length sep \<le> length s"
proof (induction s arbitrary: m)
  case Nil
  then show ?case by (simp split: if_splits)
next
  case (Cons c cs)
  show ?case
  proof (cases "HasPrefix (c # cs) sep")
    case True
    with Cons.prems show ?thesis by (simp add: HasPrefix_def)
  next
    case False
    with Cons.prems obtain k where "Index cs sep = Some k" "m = Suc k" by auto
    with Cons.IH [of k] show ?thesis by simp
  qed
qed

text \<open>\<open>strings.Count\<close>: the number of non-overlapping instances of \<open>sep\<close>; for
  the empty separator, one more than the number of runes.\<close>

function Count :: "string \<Rightarrow> string \<Rightarrow> nat" where
  "Count s sep =
     (if sep = [] then RuneCountInString s + 1
      else case Index s sep of
             None \<Rightarrow> 0
           | Some m \<Rightarrow> 1 + Count (drop (m + length sep) s) sep)"
  by pat_completeness auto
termination
proof (relation "measure (\<lambda>(s, sep). length s)")
  show "wf (measure (\<lambda>(s, sep). length s))" by simp
next
  fix s sep :: string and m
  assume "sep \<noteq> []" and "Index s sep = Some m"
  then have "m + length sep \<le> length s" and "sep \<noteq> []"
    using Index_Some_le by auto
  then show "((drop (m + length sep) s, sep), (s, sep)) \<in> measure (\<lambda>(s, sep). length s)"
    by (cases sep) auto
qed

declare Count.simps [simp del]

text \<open>\<open>explode\<close>: at most \<open>n\<close> strings of one UTF-8 sequence each, the last one
  holding the rest; an invalid byte is a sequence of its own.\<close>

fun explodeLoop :: "nat \<Rightarrow> string \<Rightarrow> string list" where
  "explodeLoop 0 s = [s]"
| "explodeLoop (Suc k) s =
     (let size = snd (DecodeRuneInString s)
      in take size s # explodeLoop k (drop size s))"

definition explode :: "string \<Rightarrow> int \<Rightarrow> string list" where
  "explode s n =
     (let l = int (RuneCountInString s);
          n' = (if n < 0 \<or> n > l then l else n)
      in if n' > 0 then explodeLoop (nat (n' - 1)) s else [])"

text \<open>The loop of \<open>genSplit\<close>: at most \<open>k\<close> cuts at instances of \<open>sep\<close>, then
  the rest of the string.\<close>

fun splitLoop :: "nat \<Rightarrow> string \<Rightarrow> string \<Rightarrow> nat \<Rightarrow> string list" where
  "splitLoop 0 s sep sepSave = [s]"
| "splitLoop (Suc k) s sep sepSave =
     (case Index s sep of
        None \<Rightarrow> [s]
      | Some m \<Rightarrow> take (m + sepSave) s # splitLoop k (drop (m + length sep) s) sep sepSave)"

definition genSplit :: "string \<Rightarrow> string \<Rightarrow> nat \<Rightarrow> int \<Rightarrow> string list" where
  "genSplit s sep sepSave n =
     (if n = 0 then []
      else if sep = [] then explode s n
      else
        let n1 = (if n < 0 then int (Count s sep) + 1 else n);
            n2 = (if n1 > int (length s) + 1 then int (length s) + 1 else n1)
        in splitLoop (nat (n2 - 1)) s sep sepSave)"

text \<open>\<open>strings.SplitN\<close> and \<open>strings.Split\<close>.\<close>

definition SplitN :: "string \<Rightarrow> string \<Rightarrow> int \<Rightarrow> string list" where
  "SplitN s sep n = genSplit s sep 0 n"

definition Split :: "string \<Rightarrow> string \<Rightarrow> string list" where
  "Split s sep = genSplit s sep 0 (-1)"

text \<open>\<open>strings.Join\<close>.\<close>

fun Join :: "string list \<Rightarrow> string \<Rightarrow> string" where
  "Join [] sep = []"
| "Join [e] sep = e"
| "Join (e # es) sep = e @ sep @ Join es sep"

section \<open>The package \<open>path/filepath\<close> on Unix\<close>

text \<open>The inner loop of the \<open>..\<close> case of \<open>Clean\<close>: move the write index back to
  the previous separator, not below \<open>dotdot\<close>.\<close>

fun backtrack :: "string \<Rightarrow> nat \<Rightarrow> nat \<Rightarrow> nat" where
  "backtrack out dotdot 0 = 0"
| "backtrack out dotdot (Suc w) =
     (if Suc w > dotdot \<and> out ! Suc w \<noteq> CHR ''/'' then backtrack out dotdot w else Suc w)"

text \<open>The main loop of \<open>filepath.Clean\<close>. \<open>p\<close> is the part of the path still to be
  read (Go's \<open>path[r:]\<close>), \<open>out\<close> the bytes written so far (its length is Go's
  \<open>out.w\<close>), \<open>dotdot\<close> the index in \<open>out\<close> where a \<open>..\<close> must stop.\<close>

function cleanLoop :: "bool \<Rightarrow> string \<Rightarrow> nat \<Rightarrow> string \<Rightarrow> string" where
  "cleanLoop rooted out dotdot p =
     (if p = [] then out
      else if p ! 0 = CHR ''/'' then cleanLoop rooted out dotdot (drop 1 p)
      else if p ! 0 = CHR ''.'' \<and> (length p = 1 \<or> p ! 1 = CHR ''/'') then
        cleanLoop rooted out dotdot (drop 1 p)
      else if p ! 0 = CHR ''.'' \<and> p ! 1 = CHR ''.'' \<and> (length p = 2 \<or> p ! 2 = CHR ''/'') then
        (if length out > dotdot then
           cleanLoop rooted (take (backtrack out dotdot (length out - 1)) out) dotdot (drop 2 p)
         else if \<not> rooted then
           (let out' = (if length out > 0 then out @ ''/'' else out) @ ''..''
            in cleanLoop rooted out' (length out') (drop 2 p))
         else cleanLoop rooted out dotdot (drop 2 p))
      else
        (let out' = (if rooted \<and> length out \<noteq> 1 \<or> \<not> rooted \<and> length out \<noteq> 0
                     then out @ ''/'' else out)
         in cleanLoop rooted (out' @ takeWhile (\<lambda>c. c \<noteq> CHR ''/'') p) dotdot
              (dropWhile (\<lambda>c. c \<noteq> CHR ''/'') p)))"
  by pat_completeness auto
termination
proof (relation "measure (\<lambda>(rooted, out, dotdot, p). length p)", goal_cases)
  case 1
  show ?case by simp
next
  case (7 rooted out dotdot p out')
  then obtain c cs where p: "p = c # cs" by (cases p) auto
  with 7 have "c \<noteq> CHR ''/''" by simp
  then have "length (dropWhile (\<lambda>c. c \<noteq> CHR ''/'') p) \<le> length cs"
    unfolding p by (simp add: length_dropWhile_le)
  then show ?case unfolding p by simp
qed (auto simp: Suc_le_eq)

declare cleanLoop.simps [simp del]

text \<open>\<open>filepath.Clean\<close> (no volume names on Unix).\<close>

definition Clean :: "string \<Rightarrow> string" where
  "Clean path =
     (if path = [] then ''.''
      else
        let rooted = (path ! 0 = CHR ''/'');
            out = (if rooted then cleanLoop True ''/'' 1 (drop 1 path)
                   else cleanLoop False [] 0 path)
        in if out = [] then ''.'' else out)"

text \<open>\<open>filepath.Join\<close>: the elements from the first non-empty one on, joined with
  the separator and cleaned; the empty string if all elements are empty.\<close>

definition filepath_Join :: "string list \<Rightarrow> string" where
  "filepath_Join elem =
     (case dropWhile (\<lambda>e. e = []) elem of
        [] \<Rightarrow> []
      | es \<Rightarrow> Clean (Join es ''/''))"


section \<open>The package \<open>fmt\<close>\<close>

text \<open>The verb \<open>%-Ns\<close>: the string, then spaces up to a width of \<open>N\<close> runes.\<close>

definition padString :: "nat \<Rightarrow> string \<Rightarrow> string" where
  "padString wid s = s @ replicate (wid - RuneCountInString s) CHR '' ''"

text \<open>Go errors. \<open>errors.New\<close> and \<open>fmt.Errorf\<close> without \<open>%w\<close> give an
  \<open>errorString\<close>; \<open>fmt.Errorf\<close> with \<open>%w\<close> gives a \<open>wrapError\<close> that holds
  the whole message and the wrapped error.\<close>

datatype error = errorString string | wrapError string error

fun Error :: "error \<Rightarrow> string" where
  "Error (errorString msg) = msg"
| "Error (wrapError msg err) = msg"

fun Unwrap :: "error \<Rightarrow> error option" where
  "Unwrap (errorString msg) = None"
| "Unwrap (wrapError msg err) = Some err"

text \<open>\<open>fmt.Errorf(pre + "%w", err)\<close>.\<close>

definition Errorf_w :: "string \<Rightarrow> error \<Rightarrow> error" where
  "Errorf_w pre err = wrapError (pre @ Error err) err"

text \<open>\<open>fmt.Errorf(pre + "%s", s)\<close>.\<close>

definition Errorf_s :: "string \<Rightarrow> string \<Rightarrow> error" where
  "Errorf_s pre s = errorString (pre @ s)"

section \<open>The package \<open>database/sql\<close>\<close>

text \<open>
  A value of a result column is \<open>NULL\<close> (\<open>None\<close>) or a text. \<open>Rows\<close> is the
  result set of a query that could be started: the rows that \<open>Next\<close> delivers, the
  error that ended the iteration early (\<open>rows.Err()\<close>), and the error of closing.

  A database handle \<open>*sql.DB\<close> is modelled by what it does with a statement: given
  the text, the bound arguments and the state of the database, it fails or yields a
  result set, and leaves a state of the database. The state type \<open>'db\<close> is arbitrary.
\<close>

type_synonym sql_value = "string option"

record Rows =
  fetched :: "sql_value list list"
  iter_err :: "error option"
  close_err :: "error option"

type_synonym 'db sql_DB = "string \<Rightarrow> string list \<Rightarrow> 'db \<Rightarrow> (error + Rows) \<times> 'db"

text \<open>\<open>sql.ErrNoRows\<close>.\<close>

definition ErrNoRows :: error where
  "ErrNoRows = errorString ''sql: no rows in result set''"

section \<open>main.go: configuration, items and the repository\<close>

record Config =
  DBPath :: string
  StoragePath :: string
  Version :: string

text \<open>\<open>sql.NullString\<close>.\<close>

record NullString =
  String :: string
  Valid :: bool

record Item =
  StableID :: string
  Title :: string
  Tags :: NullString
  Attachments :: NullString

record 'db Repository =
  db :: "'db sql_DB"
  cfg :: Config

definition NewRepository :: "'db sql_DB \<Rightarrow> Config \<Rightarrow> 'db Repository" where
  "NewRepository d c = \<lparr>db = d, cfg = c\<rparr>"

text \<open>Scanning a column into a \<open>string\<close> fails on \<open>NULL\<close>; scanning into a
  \<open>sql.NullString\<close> does not. (The message of \<open>database/sql\<close> also names the
  column.)\<close>

definition scan_string :: "sql_value \<Rightarrow> error + string" where
  "scan_string v =
     (case v of
        None \<Rightarrow> Inl (errorString ''sql: Scan error: converting NULL to string is unsupported'')
      | Some x \<Rightarrow> Inr x)"

definition scan_NullString :: "sql_value \<Rightarrow> NullString" where
  "scan_NullString v =
     (case v of
        None \<Rightarrow> \<lparr>String = [], Valid = False\<rparr>
      | Some x \<Rightarrow> \<lparr>String = x, Valid = True\<rparr>)"

text \<open>\<open>rows.Scan(&item.StableID, &item.Title, &item.Tags, &item.Attachments)\<close>:
  the row must have four columns; the destinations are filled from left to right.\<close>

definition Scan :: "sql_value list \<Rightarrow> error + Item" where
  "Scan row =
     (if length row \<noteq> 4 then
        Inl (errorString ''sql: expected a different number of destination arguments in Scan'')
      else case scan_string (row ! 0) of
        Inl err \<Rightarrow> Inl err
      | Inr k \<Rightarrow>
         (case scan_string (row ! 1) of
            Inl err \<Rightarrow> Inl err
          | Inr ti \<Rightarrow>
              Inr \<lparr>StableID = k, Title = ti, Tags = scan_NullString (row ! 2),
                   Attachments = scan_NullString (row ! 3)\<rparr>))"

text \<open>\<open>db.QueryRow(query, args...).Scan(...)\<close>: the error of the query, or of the
  iteration, or \<open>ErrNoRows\<close>, or the error of scanning the first row, or the error of
  closing the result set.\<close>

definition QueryRow_Scan :: "(error + Rows) \<Rightarrow> error + Item" where
  "QueryRow_Scan res =
     (case res of
        Inl err \<Rightarrow> Inl err
      | Inr rows \<Rightarrow>
         (case fetched rows of
            [] \<Rightarrow> (case iter_err rows of Some err \<Rightarrow> Inl err | None \<Rightarrow> Inl ErrNoRows)
          | row # _ \<Rightarrow>
             (case Scan row of
                Inl err \<Rightarrow> Inl err
              | Inr item \<Rightarrow>
                 (case close_err rows of Some err \<Rightarrow> Inl err | None \<Rightarrow> Inr item))))"

definition baseQuery :: string where
  "baseQuery =
     [CHR 0x0A] @
     ''    SELECT '' @ [CHR 0x0A] @
     ''        i.key,'' @ [CHR 0x0A] @
     ''        idv.value as title,'' @ [CHR 0x0A] @
     ''        GROUP_CONCAT(DISTINCT t.name) as tags,'' @ [CHR 0x0A] @
     ''        GROUP_CONCAT(DISTINCT child.key || '' @ [CHR 0x27] @ '':'' @ [CHR 0x27] @ '' || COALESCE(ia.path, '' @ [CHR 0x27] @ [CHR 0x27] @ '')) as attachments'' @ [CHR 0x0A] @
     ''    FROM items i'' @ [CHR 0x0A] @
     ''    LEFT JOIN itemData id ON i.itemID = id.itemID '' @ [CHR 0x0A] @
     ''    LEFT JOIN itemDataValues idv ON id.valueID = idv.valueID'' @ [CHR 0x0A] @
     ''    LEFT JOIN itemTypes it ON i.itemTypeID = it.itemTypeID'' @ [CHR 0x0A] @
     ''    LEFT JOIN itemTags itag ON i.itemID = itag.itemID'' @ [CHR 0x0A] @
     ''    LEFT JOIN tags t ON itag.tagID = t.tagID'' @ [CHR 0x0A] @
     ''    LEFT JOIN itemAttachments ia ON (ia.parentItemID = i.itemID OR ia.itemID = i.itemID)'' @ [CHR 0x0A] @
     ''    LEFT JOIN items child ON ia.itemID = child.itemID'' @ [CHR 0x0A] @
     ''    WHERE it.display = 1'' @ [CHR 0x0A] @
     ''        AND id.fieldID = (SELECT fieldID FROM fields WHERE fieldName = '' @ [CHR 0x27] @ ''title'' @ [CHR 0x27] @ '')'' @ [CHR 0x0A] @
     ''        AND NOT EXISTS ('' @ [CHR 0x0A] @
     ''            SELECT 1 FROM itemAttachments '' @ [CHR 0x0A] @
     ''            WHERE itemAttachments.itemID = i.itemID '' @ [CHR 0x0A] @
     ''            AND itemAttachments.parentItemID IS NOT NULL)''"

text \<open>\<open>GetByStableID\<close> returns Go's pair \<open>(*Item, error)\<close>: \<open>None\<close> is \<open>nil\<close>.\<close>

definition GetByStableID ::
  "'db Repository \<Rightarrow> string \<Rightarrow> 'db \<Rightarrow> (Item option \<times> error option) \<times> 'db" where
  "GetByStableID r stableID dbs =
     (let query = baseQuery @ '' AND i.key = ? GROUP BY i.itemID'';
          (res, dbs') = db r query [stableID] dbs
      in case QueryRow_Scan res of
           Inl err \<Rightarrow> ((None, Some (Errorf_w ''fetching item: '' err)), dbs')
         | Inr item \<Rightarrow> ((Some item, None), dbs'))"

text \<open>The loop \<open>for rows.Next() { ... }\<close> of \<open>ListItems\<close>: it stops at the first row
  that cannot be scanned.\<close>

fun scanRows :: "Item list \<Rightarrow> sql_value list list \<Rightarrow> error + Item list" where
  "scanRows items [] = Inr items"
| "scanRows items (row # rest) =
     (case Scan row of
        Inl err \<Rightarrow> Inl (Errorf_w ''scanning row: '' err)
      | Inr item \<Rightarrow> scanRows (items @ [item]) rest)"

text \<open>The query text and the arguments that \<open>ListItems\<close> builds.\<close>

definition listConditions :: "string \<Rightarrow> string \<Rightarrow> string list" where
  "listConditions titleFilter tagFilter =
     (if titleFilter \<noteq> [] then [''idv.value LIKE ?''] else []) @
     (if tagFilter \<noteq> [] then [''t.name LIKE ?''] else [])"

definition listArgs :: "string \<Rightarrow> string \<Rightarrow> string list" where
  "listArgs titleFilter tagFilter =
     (if titleFilter \<noteq> [] then [''%'' @ titleFilter @ ''%''] else []) @
     (if tagFilter \<noteq> [] then [''%'' @ tagFilter @ ''%''] else [])"

definition listQuery :: "string \<Rightarrow> string \<Rightarrow> string" where
  "listQuery titleFilter tagFilter =
     baseQuery @
     (if titleFilter \<noteq> [] \<or> tagFilter \<noteq> [] then
        (let conditions = listConditions titleFilter tagFilter
         in if length conditions > 0 then '' AND '' @ Join conditions '' AND '' else [])
      else []) @
     '' GROUP BY i.itemID''"

text \<open>\<open>ListItems\<close> returns Go's pair \<open>([]*Item, error)\<close>; the \<open>nil\<close> slice is the
  empty list.\<close>

definition ListItems ::
  "'db Repository \<Rightarrow> string \<Rightarrow> string \<Rightarrow> 'db \<Rightarrow> (Item list \<times> error option) \<times> 'db" where
  "ListItems r titleFilter tagFilter dbs =
     (let (res, dbs') = db r (listQuery titleFilter tagFilter) (listArgs titleFilter tagFilter) dbs
      in case res of
           Inl err \<Rightarrow> (([], Some (Errorf_w ''executing query: '' err)), dbs')
         | Inr rows \<Rightarrow>
            (case scanRows [] (fetched rows) of
               Inl err \<Rightarrow> (([], Some err), dbs')
             | Inr items \<Rightarrow>
                (case iter_err rows of
                   Some err \<Rightarrow> (([], Some (Errorf_w ''iterating rows: '' err)), dbs')
                 | None \<Rightarrow> ((items, None), dbs'))))"


section \<open>main.go: the command-line operations\<close>

text \<open>
  Everything outside the process is the \<open>world\<close>: how \<open>sql.Open\<close> and the
  launching of a command answer, the state of the database, what has been written to
  standard output (one entry per print call) and to the log, and the commands that
  have been launched (the argument vectors, in order).
\<close>

record 'db world =
  sql_Open :: "string \<Rightarrow> string \<Rightarrow> error + 'db sql_DB"
  cmd_Run :: "string list \<Rightarrow> error option"
  database :: 'db
  stdout :: "string list"
  stderr :: "string list"
  launched :: "string list list"

record 'db CLI =
  repo :: "'db Repository"
  cfg :: Config

definition NewCLI :: "'db Repository \<Rightarrow> Config \<Rightarrow> 'db CLI" where
  "NewCLI r c = \<lparr>repo = r, cfg = c\<rparr>"

definition getStoragePath :: "'db CLI \<Rightarrow> Item \<Rightarrow> string" where
  "getStoragePath c item =
     (if \<not> Valid (Attachments item) \<or> String (Attachments item) = [] then []
      else
        let attachments = Split (String (Attachments item)) '','' in
        if length attachments = 0 then []
        else
          let parts = SplitN (attachments ! 0) '':'' 2 in
          if length parts \<noteq> 2 then []
          else filepath_Join
                 [StoragePath (CLI.cfg c), parts ! 0, TrimPrefix (parts ! 1) ''storage:''])"

text \<open>\<open>truncateString\<close>. Go's \<open>int\<close> is a 64-bit word read as signed. The slice
  expression \<open>runes[:n-3]\<close> panics when \<open>n-3\<close> is negative or beyond the slice;
  \<open>None\<close> is the panic.\<close>

definition truncateString :: "string \<Rightarrow> 64 word \<Rightarrow> string option" where
  "truncateString s n =
     (if int (RuneCountInString s) \<le> sint n then Some s
      else
        let runes = runes_of_string s; high = sint (n - 3) in
        if 0 \<le> high \<and> high \<le> int (length runes)
        then Some (string_of_runes (take (nat high) runes) @ ''...'')
        else None)"

text \<open>The two formats of \<open>printItem\<close>:
  \<^verbatim>\<open>"%-8s\t%-25s\t%-15s\t%s\n"\<close> and \<^verbatim>\<open>"%-8s\t%-25s\t%-15s\t\n"\<close>.\<close>

definition formatRow :: "string \<Rightarrow> string \<Rightarrow> string \<Rightarrow> string \<Rightarrow> string" where
  "formatRow stableID title tags storagePath =
     padString 8 stableID @ [CHR 0x09] @ padString 25 title @ [CHR 0x09] @
     padString 15 tags @ [CHR 0x09] @ storagePath @ [CHR 0x0A]"

text \<open>\<open>printItem\<close>: the strings it writes to standard output, one per print call;
  \<open>None\<close> if \<open>truncateString\<close> panics (which happens before anything is
  written).\<close>

definition printItem :: "'db CLI \<Rightarrow> Item \<Rightarrow> bool \<Rightarrow> string list option" where
  "printItem c item verbose =
     (if \<not> verbose then Some [StableID item @ [CHR 0x0A]]
      else
        case truncateString (Title item) 25 of
          None \<Rightarrow> None
        | Some title \<Rightarrow>
           (case (if Valid (Tags item) then truncateString (String (Tags item)) 15 else Some [])
            of
              None \<Rightarrow> None
            | Some tags \<Rightarrow>
               (if Valid (Attachments item) \<and> String (Attachments item) \<noteq> [] then
                  Some (concat (map
                    (\<lambda>att.
                       let parts = SplitN att '':'' 2 in
                       if length parts = 2 then
                         [formatRow (StableID item) title tags
                            (filepath_Join
                               [StoragePath (CLI.cfg c), parts ! 0,
                                TrimPrefix (parts ! 1) ''storage:''])]
                       else [])
                    (Split (String (Attachments item)) '','')))
                else Some [formatRow (StableID item) title tags []])))"

text \<open>The loop of \<open>List\<close> over the items: \<open>None\<close> if \<open>printItem\<close> panics.\<close>

fun printItems :: "'db CLI \<Rightarrow> Item list \<Rightarrow> bool \<Rightarrow> string list \<Rightarrow> string list option" where
  "printItems c [] verbose out = Some out"
| "printItems c (item # items) verbose out =
     (case printItem c item verbose of
        None \<Rightarrow> None
      | Some lines \<Rightarrow> printItems c items verbose (out @ lines))"

text \<open>The operations of the CLI return Go's \<open>error\<close> (\<open>None\<close> is \<open>nil\<close>) and the
  world they leave; the outer \<open>None\<close> is a panic.\<close>

definition List ::
  "'db CLI \<Rightarrow> string \<Rightarrow> string \<Rightarrow> bool \<Rightarrow> 'db world \<Rightarrow> (error option \<times> 'db world) option" where
  "List c titleFilter tagFilter verbose w =
     (let ((items, err), dbs') = ListItems (repo c) titleFilter tagFilter (database w);
          w' = w\<lparr>database := dbs'\<rparr>
      in case err of
           Some e \<Rightarrow> Some (Some (Errorf_w ''listing items: '' e), w')
         | None \<Rightarrow>
            (case printItems c items verbose (stdout w') of
               None \<Rightarrow> None
             | Some out \<Rightarrow> Some (None, w'\<lparr>stdout := out\<rparr>)))"

definition Open ::
  "'db CLI \<Rightarrow> string \<Rightarrow> 'db world \<Rightarrow> (error option \<times> 'db world) option" where
  "Open c stableID w =
     (let ((item, err), dbs') = GetByStableID (repo c) stableID (database w);
          w' = w\<lparr>database := dbs'\<rparr>
      in case err of
           Some e \<Rightarrow> Some (Some (Errorf_w ''getting item: '' e), w')
         | None \<Rightarrow>
            (case item of
               None \<Rightarrow> None
             | Some item \<Rightarrow>
                (let path = getStoragePath c item in
                 if path = [] then
                   Some (Some (Errorf_s ''no attachment found for item: '' stableID), w')
                 else
                   let w'' = w'\<lparr>launched := launched w' @ [[''open'', path]]\<rparr> in
                   case cmd_Run w'' [''open'', path] of
                     Some e \<Rightarrow> Some (Some (Errorf_w ''opening file: '' e), w'')
                   | None \<Rightarrow> Some (None, w''))))"

text \<open>The format of \<open>Reference\<close>:
  \<^verbatim>\<open>"[zotero: %s, stableid: %s, tags: %s, version: %s](%s)\n"\<close>.\<close>

definition formatReference :: "string \<Rightarrow> string \<Rightarrow> string \<Rightarrow> string \<Rightarrow> string \<Rightarrow> string" where
  "formatReference title stableID tags version path =
     ''[zotero: '' @ title @ '', stableid: '' @ stableID @ '', tags: '' @ tags @
     '', version: '' @ version @ ''](''  @ path @ '')'' @ [CHR 0x0A]"

definition Reference ::
  "'db CLI \<Rightarrow> string \<Rightarrow> 'db world \<Rightarrow> (error option \<times> 'db world) option" where
  "Reference c stableID w =
     (let ((item, err), dbs') = GetByStableID (repo c) stableID (database w);
          w' = w\<lparr>database := dbs'\<rparr>
      in case err of
           Some e \<Rightarrow> Some (Some (Errorf_w ''getting item: '' e), w')
         | None \<Rightarrow>
            (case item of
               None \<Rightarrow> None
             | Some item \<Rightarrow>
                (let path = getStoragePath c item in
                 if path = [] then
                   Some (Some (Errorf_s ''no attachment found for item: '' stableID), w')
                 else
                   let tags0 = (if Valid (Tags item) then String (Tags item) else []);
                       tags1 = ''{'' @ tags0 @ ''}'';
                       tags = (if tags1 = ''{}'' then ''{}'' else tags1)
                   in Some (None, w'\<lparr>stdout := stdout w' @
                         [formatReference (Title item) (StableID item) tags
                            (Version (CLI.cfg c)) path]\<rparr>))))"

section \<open>main.go: the entry point\<close>

text \<open>
  \<open>log.Fatal\<close> and \<open>log.Fatalf\<close> write the message to the log and end the process
  with status 1 (the time stamp that \<open>log\<close> puts in front of the message is left
  out). A panic ends the process with status 2.
\<close>

definition Fatal :: "string \<Rightarrow> 'db world \<Rightarrow> nat \<times> 'db world" where
  "Fatal msg w = (1, w\<lparr>stderr := stderr w @ [msg @ [CHR 0x0A]]\<rparr>)"

definition panicked :: "'db world \<Rightarrow> nat \<times> 'db world" where
  "panicked w = (2, w\<lparr>stderr := stderr w @ [''panic: runtime error'' @ [CHR 0x0A]]\<rparr>)"

text \<open>The outcome of a CLI operation at the entry point: a fatal error with the given
  prefix, or status 0.\<close>

definition finish ::
  "string \<Rightarrow> 'db world \<Rightarrow> (error option \<times> 'db world) option \<Rightarrow> nat \<times> 'db world" where
  "finish pre w res =
     (case res of
        None \<Rightarrow> panicked w
      | Some (Some err, w') \<Rightarrow> Fatal (pre @ Error err) w'
      | Some (None, w') \<Rightarrow> (0, w'))"

text \<open>\<open>main\<close>, after \<open>flag.Parse()\<close>: \<open>titleFlag\<close>, \<open>tagFlag\<close> and
  \<open>verboseFlag\<close> are the values of \<open>-f\<close>, \<open>-t\<close> and \<open>-v\<close>, and \<open>args\<close> is
  \<open>flag.Args()\<close>, the arguments after the flags. The result is the exit status and
  the world that the process leaves.\<close>

definition main ::
  "string \<Rightarrow> string \<Rightarrow> bool \<Rightarrow> string list \<Rightarrow> 'db world \<Rightarrow> nat \<times> 'db world" where
  "main titleFlag tagFlag verboseFlag args w =
     (let cfg' = \<lparr>DBPath = ''/Users/vania/data/zotero/zotero.sqlite'',
                 StoragePath = ''/Users/vania/data/zotero/storage/'',
                 Version = ''1.0''\<rparr>
      in case sql_Open w ''sqlite3'' (DBPath cfg') of
           Inl err \<Rightarrow> Fatal (''Error opening database: '' @ Error err) w
         | Inr db' \<Rightarrow>
            (let repo' = NewRepository db' cfg';
                 cli = NewCLI repo' cfg'
             in if length args = 0 then
                  finish ''Error listing items: '' w (List cli titleFlag tagFlag verboseFlag w)
                else
                  let command = args ! 0 in
                  if command = ''open'' then
                    (if length args \<noteq> 2 then Fatal ''Usage: store-zotero open <stableid>'' w
                     else finish ''Error opening item: '' w (Open cli (args ! 1) w))
                  else if command = ''reference'' then
                    (if length args \<noteq> 2 then Fatal ''Usage: store-zotero reference <stableid>'' w
                     else finish ''Error generating reference: '' w (Reference cli (args ! 1) w))
                  else Fatal (''Unknown command: '' @ command) w))"


section \<open>The database: the tables that the query reads, and SQLite's answer\<close>

text \<open>
  The schema of the database is not part of the program; the model has the tables and
  the columns that \<open>baseQuery\<close> names. Every column may hold \<open>NULL\<close> (\<open>None\<close>);
  identifiers and flags are integers, the other columns are texts.
\<close>

record items_row =
  items_itemID :: "int option"
  items_itemTypeID :: "int option"
  items_key :: "string option"

record itemData_row =
  itemData_itemID :: "int option"
  itemData_fieldID :: "int option"
  itemData_valueID :: "int option"

record itemDataValues_row =
  itemDataValues_valueID :: "int option"
  itemDataValues_value :: "string option"

record itemTypes_row =
  itemTypes_itemTypeID :: "int option"
  itemTypes_display :: "int option"

record itemTags_row =
  itemTags_itemID :: "int option"
  itemTags_tagID :: "int option"

record tags_row =
  tags_tagID :: "int option"
  tags_name :: "string option"

record itemAttachments_row =
  itemAttachments_itemID :: "int option"
  itemAttachments_parentItemID :: "int option"
  itemAttachments_path :: "string option"

record fields_row =
  fields_fieldID :: "int option"
  fields_fieldName :: "string option"

record database =
  tbl_items :: "items_row list"
  tbl_itemData :: "itemData_row list"
  tbl_itemDataValues :: "itemDataValues_row list"
  tbl_itemTypes :: "itemTypes_row list"
  tbl_itemTags :: "itemTags_row list"
  tbl_tags :: "tags_row list"
  tbl_itemAttachments :: "itemAttachments_row list"
  tbl_fields :: "fields_row list"

text \<open>
  A comparison \<open>a = b\<close> of SQL is true when both sides are not \<open>NULL\<close> and equal.
  In \<open>baseQuery\<close> every comparison stands where only its being true matters (in an
  \<open>ON\<close>, or as a conjunct of a \<open>WHERE\<close>, or under the one \<open>OR\<close>), so that the
  conditions are modelled by truth values.
\<close>

definition sql_eq :: "'a option \<Rightarrow> 'a option \<Rightarrow> bool" where
  "sql_eq a b = (case a of None \<Rightarrow> False | Some x \<Rightarrow> b = Some x)"

text \<open>A column of a table that a \<open>LEFT JOIN\<close> brought in: \<open>NULL\<close> when the join
  found no row.\<close>

definition col :: "'r option \<Rightarrow> ('r \<Rightarrow> 'a option) \<Rightarrow> 'a option" where
  "col row c = (case row of None \<Rightarrow> None | Some x \<Rightarrow> c x)"

text \<open>\<open>LEFT JOIN tbl ON cond\<close>: the rows of \<open>tbl\<close> that satisfy \<open>cond\<close>, or one
  \<open>NULL\<close> row if there is none.\<close>

definition left_join :: "('r \<Rightarrow> bool) \<Rightarrow> 'r list \<Rightarrow> 'r option list" where
  "left_join cond tbl = (case filter cond tbl of [] \<Rightarrow> [None] | ms \<Rightarrow> map Some ms)"

text \<open>A row of the \<open>FROM\<close> clause, one field for each table alias of
  \<open>baseQuery\<close>: \<open>i\<close>, \<open>id\<close>, \<open>idv\<close>, \<open>it\<close>, \<open>itag\<close>, \<open>t\<close>, \<open>ia\<close>,
  \<open>child\<close>.\<close>

record joined =
  r_i :: items_row
  r_id :: "itemData_row option"
  r_idv :: "itemDataValues_row option"
  r_it :: "itemTypes_row option"
  r_itag :: "itemTags_row option"
  r_t :: "tags_row option"
  r_ia :: "itemAttachments_row option"
  r_child :: "items_row option"

text \<open>The \<open>FROM\<close> clause with its seven \<open>LEFT JOIN\<close>s, in the order of the text.\<close>

definition from_rows :: "database \<Rightarrow> joined list" where
  "from_rows d =
     [\<lparr>r_i = i, r_id = id', r_idv = idv, r_it = it, r_itag = itag, r_t = t, r_ia = ia,
       r_child = child\<rparr>.
        i \<leftarrow> tbl_items d,
        id' \<leftarrow> left_join (\<lambda>x. sql_eq (items_itemID i) (itemData_itemID x)) (tbl_itemData d),
        idv \<leftarrow> left_join (\<lambda>x. sql_eq (col id' itemData_valueID) (itemDataValues_valueID x))
                 (tbl_itemDataValues d),
        it \<leftarrow> left_join (\<lambda>x. sql_eq (items_itemTypeID i) (itemTypes_itemTypeID x)) (tbl_itemTypes d),
        itag \<leftarrow> left_join (\<lambda>x. sql_eq (items_itemID i) (itemTags_itemID x)) (tbl_itemTags d),
        t \<leftarrow> left_join (\<lambda>x. sql_eq (col itag itemTags_tagID) (tags_tagID x)) (tbl_tags d),
        ia \<leftarrow> left_join
                (\<lambda>x. sql_eq (itemAttachments_parentItemID x) (items_itemID i) \<or>
                      sql_eq (itemAttachments_itemID x) (items_itemID i))
                (tbl_itemAttachments d),
        child \<leftarrow> left_join (\<lambda>x. sql_eq (col ia itemAttachments_itemID) (items_itemID x))
                   (tbl_items d)]"

text \<open>The scalar subquery \<^verbatim>\<open>(SELECT fieldID FROM fields WHERE fieldName = 'title')\<close>:
  the value in the first row, \<open>NULL\<close> if there is no row.\<close>

definition title_fieldID :: "database \<Rightarrow> int option" where
  "title_fieldID d =
     (case filter (\<lambda>f. sql_eq (fields_fieldName f) (Some ''title'')) (tbl_fields d) of
        [] \<Rightarrow> None
      | f # _ \<Rightarrow> fields_fieldID f)"

text \<open>The \<open>WHERE\<close> clause of \<open>baseQuery\<close>.\<close>

definition where_base :: "database \<Rightarrow> joined \<Rightarrow> bool" where
  "where_base d r =
     (sql_eq (col (r_it r) itemTypes_display) (Some 1) \<and>
      sql_eq (col (r_id r) itemData_fieldID) (title_fieldID d) \<and>
      \<not> list_ex
           (\<lambda>a. sql_eq (itemAttachments_itemID a) (items_itemID (r_i r)) \<and>
                 itemAttachments_parentItemID a \<noteq> None)
           (tbl_itemAttachments d))"

subsection \<open>The operator \<open>LIKE\<close>\<close>

text \<open>
  SQLite compares character by character. It reads a character as one byte, followed,
  if that byte is \<open>0xC0\<close> or more, by all the bytes \<open>0x80\<close> to \<open>0xBF\<close> that come
  next (for valid UTF-8 these are the characters of the text). \<open>%\<close> in the pattern
  matches any sequence of characters, \<open>_\<close> matches one character, any other character
  matches itself, an ASCII letter also in the other case. There is no escape character.
  (Texts with a zero byte are outside the model.)
\<close>

definition is_continuation :: "char \<Rightarrow> bool" where
  "is_continuation c = (0x80 \<le> (of_char c :: nat) \<and> (of_char c :: nat) \<le> 0xBF)"

function sqlite_chars :: "string \<Rightarrow> string list" where
  "sqlite_chars [] = []"
| "sqlite_chars (c # cs) =
     (if (of_char c :: nat) \<ge> 0xC0
      then (c # takeWhile is_continuation cs) # sqlite_chars (dropWhile is_continuation cs)
      else [c] # sqlite_chars cs)"
  by pat_completeness auto
termination
  by (relation "measure length") (auto simp: length_dropWhile_le less_Suc_eq_le)

text \<open>\<open>sqlite3Tolower\<close>: the ASCII capital letters to lower case.\<close>

definition sqlite3Tolower :: "char \<Rightarrow> char" where
  "sqlite3Tolower c =
     (if 0x41 \<le> (of_char c :: nat) \<and> (of_char c :: nat) \<le> 0x5A
      then char_of ((of_char c :: nat) + 32) else c)"

fun like_match :: "string list \<Rightarrow> string list \<Rightarrow> bool" where
  "like_match [] s = (s = [])"
| "like_match (p # ps) s =
     (if p = ''%'' then
        like_match ps s \<or> (case s of [] \<Rightarrow> False | c # s' \<Rightarrow> like_match (p # ps) s')
      else if p = ''_'' then
        (case s of [] \<Rightarrow> False | c # s' \<Rightarrow> like_match ps s')
      else
        (case s of
           [] \<Rightarrow> False
         | c # s' \<Rightarrow> map sqlite3Tolower c = map sqlite3Tolower p \<and> like_match ps s'))"

text \<open>\<open>value LIKE pattern\<close> is true: the value is not \<open>NULL\<close> and matches.\<close>

definition sql_like :: "string option \<Rightarrow> string \<Rightarrow> bool" where
  "sql_like v pattern =
     (case v of None \<Rightarrow> False | Some x \<Rightarrow> like_match (sqlite_chars pattern) (sqlite_chars x))"

subsection \<open>The statements of the program\<close>

text \<open>The conditions that the program appends to the \<open>WHERE\<close> clause:
  \<open>i.key = ?\<close>, \<open>idv.value LIKE ?\<close>, \<open>t.name LIKE ?\<close>, each with its bound
  argument.\<close>

datatype condition = KeyIs string | TitleLike string | TagLike string

fun holds :: "condition \<Rightarrow> joined \<Rightarrow> bool" where
  "holds (KeyIs k) r = sql_eq (items_key (r_i r)) (Some k)"
| "holds (TitleLike p) r = sql_like (col (r_idv r) itemDataValues_value) p"
| "holds (TagLike p) r = sql_like (col (r_t r) tags_name) p"

text \<open>\<open>GROUP BY i.itemID\<close>: one group for each value of \<open>i.itemID\<close> (\<open>NULL\<close> is a
  value here). SQL does not fix the order of the groups.\<close>

definition group_by_itemID :: "joined list \<Rightarrow> joined list list" where
  "group_by_itemID rows =
     map (\<lambda>k. filter (\<lambda>r. items_itemID (r_i r) = k) rows)
       (remdups (map (\<lambda>r. items_itemID (r_i r)) rows))"

text \<open>\<open>GROUP_CONCAT(DISTINCT x)\<close>: the distinct values of the group that are not
  \<open>NULL\<close>, joined with commas; \<open>NULL\<close> if there is none.\<close>

definition group_concat_distinct :: "string option list \<Rightarrow> string option" where
  "group_concat_distinct vs =
     (case remdups (concat (map (\<lambda>v. case v of None \<Rightarrow> [] | Some x \<Rightarrow> [x]) vs)) of
        [] \<Rightarrow> None
      | xs \<Rightarrow> Some (Join xs '',''))"

text \<open>\<^verbatim>\<open>child.key || ':' || COALESCE(ia.path, '')\<close>: \<open>NULL\<close> if \<open>child.key\<close> is.\<close>

definition attachment_pair :: "joined \<Rightarrow> string option" where
  "attachment_pair r =
     (case col (r_child r) items_key of
        None \<Rightarrow> None
      | Some k \<Rightarrow>
          Some (k @ '':'' @ (case col (r_ia r) itemAttachments_path of None \<Rightarrow> [] | Some p \<Rightarrow> p)))"

text \<open>The result row of a group. \<open>i.key\<close> and \<open>idv.value\<close> are bare columns: SQLite
  takes them from one row of the group, and which one is not fixed; the model takes
  the first.\<close>

definition result_row :: "joined list \<Rightarrow> sql_value list" where
  "result_row g =
     (case g of
        [] \<Rightarrow> [None, None, None, None]
      | r # _ \<Rightarrow>
          [items_key (r_i r),
           col (r_idv r) itemDataValues_value,
           group_concat_distinct (map (\<lambda>r. col (r_t r) tags_name) g),
           group_concat_distinct (map attachment_pair g)])"

text \<open>The rows that \<open>baseQuery\<close>, extended by the given conditions and grouped,
  selects.\<close>

definition select_items :: "database \<Rightarrow> condition list \<Rightarrow> sql_value list list" where
  "select_items d conds =
     map result_row
       (group_by_itemID
          (filter (\<lambda>r. where_base d r \<and> list_all (\<lambda>c. holds c r) conds) (from_rows d)))"

text \<open>
  SQLite's answer to the statements that the program sends. A statement is recognised
  by its text; the arguments are bound to the \<open>?\<close> in order. A pattern of more than
  50000 bytes makes SQLite fail (``LIKE or GLOB pattern too complex''); the driver
  reports a failure of the execution from the iteration over the rows. Any other text
  is outside the model and is answered with an error. No statement of the program
  changes the database.
\<close>

definition answer :: "database \<Rightarrow> condition list \<Rightarrow> (error + Rows) \<times> database" where
  "answer d conds =
     (if list_ex (\<lambda>c. case c of KeyIs k \<Rightarrow> False
                              | TitleLike p \<Rightarrow> length p > 50000
                              | TagLike p \<Rightarrow> length p > 50000) conds
      then (Inr \<lparr>fetched = [],
                 iter_err = Some (errorString ''LIKE or GLOB pattern too complex''),
                 close_err = None\<rparr>, d)
      else (Inr \<lparr>fetched = select_items d conds, iter_err = None, close_err = None\<rparr>, d))"

definition sqlite :: "database sql_DB" where
  "sqlite query args d =
     (if query = baseQuery @ '' AND i.key = ? GROUP BY i.itemID'' \<and> length args = 1 then
        answer d [KeyIs (args ! 0)]
      else if query = baseQuery @ '' GROUP BY i.itemID'' \<and> length args = 0 then
        answer d []
      else if query = baseQuery @ '' AND idv.value LIKE ? GROUP BY i.itemID'' \<and>
              length args = 1 then
        answer d [TitleLike (args ! 0)]
      else if query = baseQuery @ '' AND t.name LIKE ? GROUP BY i.itemID'' \<and>
              length args = 1 then
        answer d [TagLike (args ! 0)]
      else if query = baseQuery @ '' AND idv.value LIKE ? AND t.name LIKE ? GROUP BY i.itemID'' \<and>
              length args = 2 then
        answer d [TitleLike (args ! 0), TagLike (args ! 1)]
      else (Inl (errorString ''statement outside the model''), d))"

section \<open>The claims as they are worded, and example inputs\<close>

text \<open>Claim C1 as it is worded: the empty string only for an absent or empty
  attachments field; otherwise the first pair is cut at its first colon and the three
  parts are joined, whether or not the pair has a colon.\<close>

definition getStoragePath_as_claimed :: "'db CLI \<Rightarrow> Item \<Rightarrow> string" where
  "getStoragePath_as_claimed c item =
     (let a = String (Attachments item) in
      if \<not> Valid (Attachments item) \<or> a = [] then []
      else
        let pair = takeWhile (\<lambda>x. x \<noteq> CHR '','') a;
            attachmentKey = takeWhile (\<lambda>x. x \<noteq> CHR '':'') pair;
            relativePath = drop 1 (dropWhile (\<lambda>x. x \<noteq> CHR '':'') pair)
        in filepath_Join
             [StoragePath (CLI.cfg c), attachmentKey, TrimPrefix relativePath ''storage:''])"

text \<open>A configuration, a handle to a database that answers every statement with an
  error, and an item with a given attachments column, for the examples.\<close>

definition exampleConfig :: Config where
  "exampleConfig = \<lparr>DBPath = ''/data/zotero.sqlite'', StoragePath = ''/data/storage/'',
                     Version = ''1.0''\<rparr>"

definition noDB :: "unit sql_DB" where
  "noDB query args dbs = (Inl ErrNoRows, dbs)"

definition exampleCLI :: "unit CLI" where
  "exampleCLI = NewCLI (NewRepository noDB exampleConfig) exampleConfig"

definition itemWith :: "sql_value \<Rightarrow> Item" where
  "itemWith atts = \<lparr>StableID = ''ABCD1234'', Title = ''A title'',
                     Tags = \<lparr>String = [], Valid = False\<rparr>,
                     Attachments = scan_NullString atts\<rparr>"

text \<open>The title and the tags as the verbose output shows them.\<close>

definition shownTitle :: "Item \<Rightarrow> string" where
  "shownTitle item =
     (if RuneCountInString (Title item) \<le> 25 then Title item
      else string_of_runes (take 22 (runes_of_string (Title item))) @ ''...'')"

definition shownTags :: "Item \<Rightarrow> string" where
  "shownTags item =
     (if \<not> Valid (Tags item) then []
      else if RuneCountInString (String (Tags item)) \<le> 15 then String (Tags item)
      else string_of_runes (take 12 (runes_of_string (String (Tags item)))) @ ''...'')"

text \<open>The storage paths of the attachment pairs that have a colon, in order.\<close>

definition shownPaths :: "'db CLI \<Rightarrow> Item \<Rightarrow> string list" where
  "shownPaths c item =
     (if Valid (Attachments item) \<and> String (Attachments item) \<noteq> [] then
        concat (map
          (\<lambda>att. let parts = SplitN att '':'' 2 in
             if length parts = 2
             then [filepath_Join [StoragePath (CLI.cfg c), parts ! 0,
                                  TrimPrefix (parts ! 1) ''storage:'']]
             else [])
          (Split (String (Attachments item)) '',''))
      else [[]])"

text \<open>Items for the examples: a long title and long tags; attachments without a
  colon.\<close>

definition longItem :: Item where
  "longItem = \<lparr>StableID = ''ABCD1234'',
                Title = ''An unusually long title of a paper'',
                Tags = \<lparr>String = ''logic,verification,types'', Valid = True\<rparr>,
                Attachments = \<lparr>String = ''EFGH5678:storage:paper.pdf'', Valid = True\<rparr>\<rparr>"

text \<open>The statement that \<open>GetByStableID\<close> sends, the configuration that \<open>main\<close>
  sets up, and the CLI that \<open>main\<close> builds on a database handle.\<close>

definition getQuery :: string where
  "getQuery = baseQuery @ '' AND i.key = ? GROUP BY i.itemID''"

definition mainConfig :: Config where
  "mainConfig = \<lparr>DBPath = ''/Users/vania/data/zotero/zotero.sqlite'',
                  StoragePath = ''/Users/vania/data/zotero/storage/'',
                  Version = ''1.0''\<rparr>"

definition mainCLI :: "'db sql_DB \<Rightarrow> 'db CLI" where
  "mainCLI dbh = NewCLI (NewRepository dbh mainConfig) mainConfig"

text \<open>A handle that answers every statement with one given row; a world in which
  \<open>sql.Open\<close> yields a given handle and every launched command succeeds.\<close>

definition oneRowDB :: "sql_value list \<Rightarrow> unit sql_DB" where
  "oneRowDB row query args dbs =
     (Inr \<lparr>fetched = [row], iter_err = None, close_err = None\<rparr>, dbs)"

definition exampleWorld :: "unit sql_DB \<Rightarrow> unit world" where
  "exampleWorld dbh =
     \<lparr>sql_Open = (\<lambda>driverName dataSourceName. Inr dbh), cmd_Run = (\<lambda>argv. None),
      database = (), stdout = [], stderr = [], launched = []\<rparr>"

text \<open>A CLI on a given handle, and the row of an item with one attachment.\<close>

definition exampleCLIon :: "unit sql_DB \<Rightarrow> unit CLI" where
  "exampleCLIon dbh = NewCLI (NewRepository dbh exampleConfig) exampleConfig"

definition exampleRow :: "sql_value list" where
  "exampleRow = [Some ''ABCD1234'', Some ''A title'', None, Some ''EFGH5678:storage:paper.pdf'']"

text \<open>A small library: two listed items, the first with two tags and one attached
  file (the child item 3), the second with one tag and no file.\<close>

definition exampleDB :: database where
  "exampleDB =
     \<lparr>tbl_items =
        [\<lparr>items_itemID = Some 1, items_itemTypeID = Some 1, items_key = Some ''AAAA1111''\<rparr>,
         \<lparr>items_itemID = Some 2, items_itemTypeID = Some 1, items_key = Some ''BBBB2222''\<rparr>,
         \<lparr>items_itemID = Some 3, items_itemTypeID = Some 2, items_key = Some ''CCCC3333''\<rparr>],
      tbl_itemData =
        [\<lparr>itemData_itemID = Some 1, itemData_fieldID = Some 1, itemData_valueID = Some 10\<rparr>,
         \<lparr>itemData_itemID = Some 2, itemData_fieldID = Some 1, itemData_valueID = Some 11\<rparr>,
         \<lparr>itemData_itemID = Some 1, itemData_fieldID = Some 2, itemData_valueID = Some 12\<rparr>],
      tbl_itemDataValues =
        [\<lparr>itemDataValues_valueID = Some 10, itemDataValues_value = Some ''Logic for Programmers''\<rparr>,
         \<lparr>itemDataValues_valueID = Some 11, itemDataValues_value = Some ''Type Theory''\<rparr>,
         \<lparr>itemDataValues_valueID = Some 12, itemDataValues_value = Some ''An abstract''\<rparr>],
      tbl_itemTypes =
        [\<lparr>itemTypes_itemTypeID = Some 1, itemTypes_display = Some 1\<rparr>,
         \<lparr>itemTypes_itemTypeID = Some 2, itemTypes_display = Some 1\<rparr>],
      tbl_itemTags =
        [\<lparr>itemTags_itemID = Some 1, itemTags_tagID = Some 100\<rparr>,
         \<lparr>itemTags_itemID = Some 1, itemTags_tagID = Some 101\<rparr>,
         \<lparr>itemTags_itemID = Some 2, itemTags_tagID = Some 101\<rparr>],
      tbl_tags =
        [\<lparr>tags_tagID = Some 100, tags_name = Some ''logic''\<rparr>,
         \<lparr>tags_tagID = Some 101, tags_name = Some ''types''\<rparr>],
      tbl_itemAttachments =
        [\<lparr>itemAttachments_itemID = Some 3, itemAttachments_parentItemID = Some 1,
          itemAttachments_path = Some ''storage:paper.pdf''\<rparr>],
      tbl_fields =
        [\<lparr>fields_fieldID = Some 1, fields_fieldName = Some ''title''\<rparr>,
         \<lparr>fields_fieldID = Some 2, fields_fieldName = Some ''abstractNote''\<rparr>]\<rparr>"

definition exampleRepository :: "database Repository" where
  "exampleRepository = NewRepository sqlite exampleConfig"

text \<open>A statement text is one \<open>SELECT\<close> statement: after white space it begins with
  the keyword, and it holds no \<open>;\<close> that could start another statement.\<close>

definition is_space :: "char \<Rightarrow> bool" where
  "is_space c = (c = CHR '' '' \<or> c = CHR 0x09 \<or> c = CHR 0x0A \<or> c = CHR 0x0D)"

definition is_select :: "string \<Rightarrow> bool" where
  "is_select query =
     (HasPrefix (dropWhile is_space query) ''SELECT '' \<and> CHR '';'' \<notin> set query)"

text \<open>The conditions that \<open>ListItems\<close> adds for its two filters.\<close>

definition listConds :: "string \<Rightarrow> string \<Rightarrow> condition list" where
  "listConds titleFilter tagFilter =
     (if titleFilter \<noteq> [] then [TitleLike (''%'' @ titleFilter @ ''%'')] else []) @
     (if tagFilter \<noteq> [] then [TagLike (''%'' @ tagFilter @ ''%'')] else [])"

text \<open>Claim C2 speaks of a text that contains a filter as a case-insensitive
  substring. \<open>contains_ci\<close> is this for the characters that SQLite reads and with the
  case folding of SQLite (ASCII letters only).\<close>

definition fold_chars :: "string \<Rightarrow> string list" where
  "fold_chars s = map (map sqlite3Tolower) (sqlite_chars s)"

definition contains_ci :: "string \<Rightarrow> string \<Rightarrow> bool" where
  "contains_ci f x = sublist (fold_chars f) (fold_chars x)"

text \<open>The rows of the \<open>FROM\<close> clause that belong to one row \<open>i\<close> of \<open>items\<close>.\<close>

definition item_rows :: "database \<Rightarrow> items_row \<Rightarrow> joined list" where
  "item_rows d i =
     [\<lparr>r_i = i, r_id = id', r_idv = idv, r_it = it, r_itag = itag, r_t = t, r_ia = ia,
       r_child = child\<rparr>.
        id' \<leftarrow> left_join (\<lambda>x. sql_eq (items_itemID i) (itemData_itemID x)) (tbl_itemData d),
        idv \<leftarrow> left_join (\<lambda>x. sql_eq (col id' itemData_valueID) (itemDataValues_valueID x))
                 (tbl_itemDataValues d),
        it \<leftarrow> left_join (\<lambda>x. sql_eq (items_itemTypeID i) (itemTypes_itemTypeID x)) (tbl_itemTypes d),
        itag \<leftarrow> left_join (\<lambda>x. sql_eq (items_itemID i) (itemTags_itemID x)) (tbl_itemTags d),
        t \<leftarrow> left_join (\<lambda>x. sql_eq (col itag itemTags_tagID) (tags_tagID x)) (tbl_tags d),
        ia \<leftarrow> left_join
                (\<lambda>x. sql_eq (itemAttachments_parentItemID x) (items_itemID i) \<or>
                      sql_eq (itemAttachments_itemID x) (items_itemID i))
                (tbl_itemAttachments d),
        child \<leftarrow> left_join (\<lambda>x. sql_eq (col ia itemAttachments_itemID) (items_itemID x))
                   (tbl_items d)]"

text \<open>
  What the database says about an item \<open>i\<close>, table by table: its type is displayed;
  it is a child attachment; it has a title field; its titles (the values of its title
  fields); the names of its tags.
\<close>

definition item_displayed :: "database \<Rightarrow> items_row \<Rightarrow> bool" where
  "item_displayed d i =
     list_ex (\<lambda>it. sql_eq (items_itemTypeID i) (itemTypes_itemTypeID it) \<and>
                   sql_eq (itemTypes_display it) (Some 1))
       (tbl_itemTypes d)"

definition is_child_attachment :: "database \<Rightarrow> items_row \<Rightarrow> bool" where
  "is_child_attachment d i =
     list_ex (\<lambda>a. sql_eq (itemAttachments_itemID a) (items_itemID i) \<and>
                  itemAttachments_parentItemID a \<noteq> None)
       (tbl_itemAttachments d)"

definition title_fields :: "database \<Rightarrow> items_row \<Rightarrow> itemData_row list" where
  "title_fields d i =
     filter (\<lambda>x. sql_eq (items_itemID i) (itemData_itemID x) \<and>
                 sql_eq (itemData_fieldID x) (title_fieldID d))
       (tbl_itemData d)"

definition item_titles :: "database \<Rightarrow> items_row \<Rightarrow> string list" where
  "item_titles d i =
     concat (map
       (\<lambda>x. concat (map (\<lambda>v. case itemDataValues_value v of None \<Rightarrow> [] | Some s \<Rightarrow> [s])
               (filter (\<lambda>v. sql_eq (itemData_valueID x) (itemDataValues_valueID v))
                  (tbl_itemDataValues d))))
       (title_fields d i))"

definition item_tag_names :: "database \<Rightarrow> items_row \<Rightarrow> string list" where
  "item_tag_names d i =
     concat (map
       (\<lambda>x. concat (map (\<lambda>t. case tags_name t of None \<Rightarrow> [] | Some s \<Rightarrow> [s])
               (filter (\<lambda>t. sql_eq (itemTags_tagID x) (tags_tagID t)) (tbl_tags d))))
       (filter (\<lambda>x. sql_eq (items_itemID i) (itemTags_itemID x)) (tbl_itemTags d)))"

text \<open>The items that a listing with the two filters is to return, as claim C2 has it
  (for the items that the query lists at all): every filter that is not empty is
  contained in a title, respectively in the name of a tag, of the item.\<close>

definition selected :: "database \<Rightarrow> string \<Rightarrow> string \<Rightarrow> items_row \<Rightarrow> bool" where
  "selected d titleFilter tagFilter i =
     (item_displayed d i \<and> \<not> is_child_attachment d i \<and> title_fields d i \<noteq> [] \<and>
      (titleFilter = [] \<or> list_ex (contains_ci titleFilter) (item_titles d i)) \<and>
      (tagFilter = [] \<or> list_ex (contains_ci tagFilter) (item_tag_names d i)))"

section \<open>Properties of the UTF-8 functions\<close>

lemma lead_mod_aux: "(q::nat) < n \<Longrightarrow> (k * n + q) mod n = q"
  by simp

lemma byte_lead_mod:
  fixes q :: nat
  shows "q < 32 \<Longrightarrow> (192 + q) mod 32 = q"
    and "q < 16 \<Longrightarrow> (224 + q) mod 16 = q"
    and "q < 8 \<Longrightarrow> (240 + q) mod 8 = q"
    and "q < 64 \<Longrightarrow> (128 + q) mod 64 = q"
  using lead_mod_aux [of q 32 6] lead_mod_aux [of q 16 14] lead_mod_aux [of q 8 30]
    lead_mod_aux [of q 64 2]
  by simp_all

lemma div4096: "(r::nat) div 4096 = r div 64 div 64"
  by (simp add: div_mult2_eq [symmetric])

lemma split4096: "(r::nat) div 4096 * 4096 + (r div 64) mod 64 * 64 + r mod 64 = r"
proof -
  define q where "q = r div 64"
  define A where "A = q div 64"
  define B where "B = q mod 64"
  have AB: "A * 64 + B = q" unfolding A_def B_def by simp
  have "A * 4096 + B * 64 = (A * 64 + B) * 64" by simp
  with AB have "A * 4096 + B * 64 = q * 64" by simp
  moreover have "q * 64 + r mod 64 = r" unfolding q_def by simp
  ultimately have "A * 4096 + B * 64 + r mod 64 = r" by simp
  then show ?thesis unfolding A_def B_def q_def div4096 .
qed

lemma split262144:
  "(r::nat) div 262144 * 262144 + (r div 4096) mod 64 * 4096 + (r div 64) mod 64 * 64 + r mod 64 = r"
proof -
  define q where "q = r div 64"
  define A where "A = q div 4096"
  define B where "B = (q div 64) mod 64"
  define C where "C = q mod 64"
  have ABC: "A * 4096 + B * 64 + C = q" unfolding A_def B_def C_def by (rule split4096)
  have "A * 262144 + B * 4096 + C * 64 = (A * 4096 + B * 64 + C) * 64" by simp
  with ABC have "A * 262144 + B * 4096 + C * 64 = q * 64" by simp
  moreover have "q * 64 + r mod 64 = r" unfolding q_def by simp
  ultimately have "A * 262144 + B * 4096 + C * 64 + r mod 64 = r" by simp
  moreover have "A = r div 262144" "B = (r div 4096) mod 64" "C = (r div 64) mod 64"
    by (simp_all add: A_def B_def C_def q_def div_mult2_eq [symmetric])
  ultimately show ?thesis by simp
qed

lemma div_bound: "(r::nat) < b * c \<Longrightarrow> r div c < b"
  by (simp add: less_mult_imp_div_less)

text \<open>Decoding after encoding: the rune comes back (\<open>RuneError\<close> for a rune that
  has no encoding), and exactly the bytes of the encoding are consumed.\<close>

lemma decode_encode:
  "DecodeRuneInString (EncodeRune r @ rest) =
     (if r > 0x10FFFF \<or> (0xD800 \<le> r \<and> r \<le> 0xDFFF) then RuneError else r,
      length (EncodeRune r))"
proof -
  consider (a) "r \<le> 0x7F" | (b) "0x7F < r" "r \<le> 0x7FF"
    | (e) "r > 0x10FFFF \<or> (0xD800 \<le> r \<and> r \<le> 0xDFFF)"
    | (c) "0x7FF < r" "r \<le> 0xFFFF" "\<not> (0xD800 \<le> r \<and> r \<le> 0xDFFF)"
    | (d) "0xFFFF < r" "r \<le> 0x10FFFF"
    by linarith
  then show ?thesis
  proof cases
    case a
    then have "first r = 0xF0" by (simp add: first_def)
    with a show ?thesis by (simp add: EncodeRune_def Let_def)
  next
    case b
    define q where "q = r div 64"
    define m where "m = r mod 64"
    have q: "2 \<le> q" "q < 32" and m: "m < 64" and r: "q * 64 + m = r"
      using b by (auto simp: q_def m_def)
    have f: "first (192 + q) = 0x02" using q by (simp add: first_def)
    have enc: "EncodeRune r = [char_of (192 + q), char_of (128 + m)]"
      using b by (simp add: EncodeRune_def q_def m_def)
    have lead: "(192 + q) mod 32 = q" "(128 + m) mod 64 = m"
      using q m by (simp_all add: byte_lead_mod)
    have small: "(192 + q) mod 256 = 192 + q" "(128 + m) mod 256 = 128 + m"
      using q m by simp_all
    show ?thesis
      using b q m r unfolding enc
      by (simp add: small f lead Let_def acceptRanges_def locb_def hicb_def)
  next
    case e
    then show ?thesis
      by (auto simp add: EncodeRune_def first_def Let_def acceptRanges_def locb_def hicb_def
          RuneError_def)
  next
    case c
    define q where "q = r div 4096"
    define m1 where "m1 = (r div 64) mod 64"
    define m2 where "m2 = r mod 64"
    have r: "q * 4096 + m1 * 64 + m2 = r"
      unfolding q_def m1_def m2_def by (rule split4096)
    have q: "q < 16" using c unfolding q_def by (simp add: div_bound)
    have m: "m1 < 64" "m2 < 64" by (simp_all add: m1_def m2_def)
    have enc: "EncodeRune r = [char_of (224 + q), char_of (128 + m1), char_of (128 + m2)]"
      using c by (auto simp add: EncodeRune_def q_def m1_def m2_def)
    have lead: "(224 + q) mod 16 = q" "(128 + m1) mod 64 = m1" "(128 + m2) mod 64 = m2"
      using q m by (simp_all add: byte_lead_mod)
    have small: "(224 + q) mod 256 = 224 + q" "(128 + m1) mod 256 = 128 + m1"
      "(128 + m2) mod 256 = 128 + m2"
      using q m by simp_all
    have rhs: "(if r > 0x10FFFF \<or> (0xD800 \<le> r \<and> r \<le> 0xDFFF) then RuneError else r) = r"
      using c by auto
    have lo: "q = 0 \<Longrightarrow> 32 \<le> m1" using r c m by arith
    have hi: "q = 13 \<Longrightarrow> m1 < 32" using r c m by arith
    consider "q = 0" | "q = 13" | "q \<noteq> 0" "q \<noteq> 13" by blast
    then show ?thesis
    proof cases
      case 1
      have f: "first (224 + q) = 0x13" using 1 by (simp add: first_def)
      show ?thesis
        using q m r lo [OF 1] unfolding enc rhs
        by (simp add: small f lead Let_def acceptRanges_def locb_def hicb_def)
    next
      case 2
      have f: "first (224 + q) = 0x23" using 2 by (simp add: first_def)
      show ?thesis
        using q m r hi [OF 2] unfolding enc rhs
        by (simp add: small f lead Let_def acceptRanges_def locb_def hicb_def)
    next
      case 3
      have f: "first (224 + q) = 0x03" using 3 q by (simp add: first_def)
      show ?thesis
        using q m r unfolding enc rhs
        by (simp add: small f lead Let_def acceptRanges_def locb_def hicb_def)
    qed
  next
    case d
    define q where "q = r div 262144"
    define m1 where "m1 = (r div 4096) mod 64"
    define m2 where "m2 = (r div 64) mod 64"
    define m3 where "m3 = r mod 64"
    have r: "q * 262144 + m1 * 4096 + m2 * 64 + m3 = r"
      unfolding q_def m1_def m2_def m3_def by (rule split262144)
    have q: "q < 5" using d unfolding q_def by (simp add: div_bound)
    have m: "m1 < 64" "m2 < 64" "m3 < 64" by (simp_all add: m1_def m2_def m3_def)
    have enc: "EncodeRune r =
        [char_of (240 + q), char_of (128 + m1), char_of (128 + m2), char_of (128 + m3)]"
      using d by (auto simp add: EncodeRune_def q_def m1_def m2_def m3_def)
    have lead: "(240 + q) mod 8 = q" "(128 + m1) mod 64 = m1" "(128 + m2) mod 64 = m2"
      "(128 + m3) mod 64 = m3"
      using q m by (simp_all add: byte_lead_mod)
    have small: "(240 + q) mod 256 = 240 + q" "(128 + m1) mod 256 = 128 + m1"
      "(128 + m2) mod 256 = 128 + m2" "(128 + m3) mod 256 = 128 + m3"
      using q m by simp_all
    have rhs: "(if r > 0x10FFFF \<or> (0xD800 \<le> r \<and> r \<le> 0xDFFF) then RuneError else r) = r"
      using d by auto
    have lo: "q = 0 \<Longrightarrow> 16 \<le> m1" using r d m by arith
    have hi: "q = 4 \<Longrightarrow> m1 < 16" using r d m by arith
    consider "q = 0" | "q = 4" | "q \<noteq> 0" "q \<noteq> 4" by blast
    then show ?thesis
    proof cases
      case 1
      have f: "first (240 + q) = 0x34" using 1 by (simp add: first_def)
      show ?thesis
        using q m r lo [OF 1] unfolding enc rhs
        by (simp add: small f lead Let_def acceptRanges_def locb_def hicb_def)
    next
      case 2
      have f: "first (240 + q) = 0x44" using 2 by (simp add: first_def)
      show ?thesis
        using q m r hi [OF 2] unfolding enc rhs
        by (simp add: small f lead Let_def acceptRanges_def locb_def hicb_def)
    next
      case 3
      have f: "first (240 + q) = 0x04" using 3 q by (simp add: first_def)
      show ?thesis
        using q m r unfolding enc rhs
        by (simp add: small f lead Let_def acceptRanges_def locb_def hicb_def)
    qed
  qed
qed

lemma EncodeRune_not_Nil: "EncodeRune r \<noteq> []"
  by (simp add: EncodeRune_def)

lemma RuneCount_Nil: "RuneCountInString [] = 0"
  by (simp add: RuneCountInString.simps)

lemma RuneCount_runes: "RuneCountInString s = length (runes_of_string s)"
proof (induction s rule: RuneCountInString.induct)
  case (1 s)
  show ?case
  proof (cases "s = []")
    case True
    then show ?thesis by (simp add: RuneCountInString.simps runes_of_string.simps)
  next
    case False
    with 1 show ?thesis
      by (subst RuneCountInString.simps, subst runes_of_string.simps) simp
  qed
qed

lemma runes_EncodeRune:
  "runes_of_string (EncodeRune r @ rest) =
     (if r > 0x10FFFF \<or> (0xD800 \<le> r \<and> r \<le> 0xDFFF) then RuneError else r) #
     runes_of_string rest"
  by (subst runes_of_string.simps) (simp add: decode_encode EncodeRune_not_Nil)

text \<open>A rune that the decoder produces is a valid code point.\<close>

definition valid_rune :: "rune \<Rightarrow> bool" where
  "valid_rune r = (r \<le> 0x10FFFF \<and> \<not> (0xD800 \<le> r \<and> r \<le> 0xDFFF))"


lemma runes_string_of_runes:
  "list_all valid_rune rs \<Longrightarrow>
     runes_of_string (string_of_runes rs @ rest) = rs @ runes_of_string rest"
proof (induction rs)
  case Nil
  then show ?case by (simp add: string_of_runes_def)
next
  case (Cons r rs)
  then have "runes_of_string (string_of_runes rs @ rest) = rs @ runes_of_string rest"
    by simp
  moreover have "\<not> (r > 0x10FFFF \<or> (0xD800 \<le> r \<and> r \<le> 0xDFFF))"
    using Cons.prems by (auto simp: valid_rune_def)
  ultimately show ?case
    using runes_EncodeRune [of r "string_of_runes rs @ rest"]
    by (auto simp add: string_of_runes_def)
qed

lemma RuneCount_string_of_runes:
  "RuneCountInString (string_of_runes rs @ rest) = length rs + RuneCountInString rest"
proof (induction rs)
  case Nil
  then show ?case by (simp add: string_of_runes_def)
next
  case (Cons r rs)
  have "RuneCountInString (EncodeRune r @ string_of_runes rs @ rest) =
          1 + RuneCountInString (string_of_runes rs @ rest)"
    by (subst RuneCountInString.simps) (simp add: decode_encode EncodeRune_not_Nil)
  with Cons show ?case by (simp add: string_of_runes_def)
qed

lemma RuneCount_dots: "RuneCountInString ''...'' = 3"
proof -
  have "string_of_runes [46, 46, 46] = ''...''"
    by code_simp
  then show ?thesis
    using RuneCount_string_of_runes [of "[46, 46, 46]" "[]"] by (simp add: RuneCount_Nil)
qed

lemma sint_sub3: "3 \<le> sint (n :: 64 word) \<Longrightarrow> sint (n - 3) = sint n - 3"
proof -
  assume a: "3 \<le> sint n"
  have "sint n < 2 ^ 63" using sint_lt [of n] by simp
  with a have "signed_take_bit 63 (sint n - 3) = sint n - 3"
    by (intro signed_take_bit_int_eq_self) auto
  then show ?thesis by (simp add: sint_word_ariths)
qed

section \<open>The results of the repository operations\<close>

lemma GetByStableID_ok:
  "db r getQuery [sid] d = (res, d') \<Longrightarrow> QueryRow_Scan res = Inr item \<Longrightarrow>
     GetByStableID r sid d = ((Some item, None), d')"
  by (simp add: GetByStableID_def getQuery_def)

lemma GetByStableID_err:
  "db r getQuery [sid] d = (res, d') \<Longrightarrow> QueryRow_Scan res = Inl e \<Longrightarrow>
     GetByStableID r sid d = ((None, Some (Errorf_w ''fetching item: '' e)), d')"
  by (simp add: GetByStableID_def getQuery_def)

lemma GetByStableID_result:
  "\<exists>res d'. db r getQuery [sid] d = (res, d') \<and>
     (case QueryRow_Scan res of
        Inl e \<Rightarrow> GetByStableID r sid d = ((None, Some (Errorf_w ''fetching item: '' e)), d')
      | Inr item \<Rightarrow> GetByStableID r sid d = ((Some item, None), d'))"
  by (cases "db r getQuery [sid] d")
     (auto simp: GetByStableID_def getQuery_def split: sum.splits)

lemma scanRows_acc:
  "scanRows acc rows =
     (case scanRows [] rows of Inl e \<Rightarrow> Inl e | Inr items \<Rightarrow> Inr (acc @ items))"
proof (induction rows arbitrary: acc)
  case Nil
  then show ?case by simp
next
  case (Cons row rows)
  show ?case
  proof (cases "Scan row")
    case (Inl e)
    then show ?thesis by simp
  next
    case (Inr item)
    then show ?thesis
      using Cons.IH [of "acc @ [item]"] Cons.IH [of "[item]"]
      by (simp split: sum.splits)
  qed
qed

lemma scanRows_ok_iff:
  "(\<exists>items. scanRows [] rows = Inr items) \<longleftrightarrow> (\<forall>row \<in> set rows. \<exists>item. Scan row = Inr item)"
proof (induction rows)
  case Nil
  then show ?case by simp
next
  case (Cons row rows)
  show ?case
  proof (cases "Scan row")
    case (Inl e)
    then show ?thesis by auto
  next
    case (Inr item)
    then show ?thesis
      using Cons.IH scanRows_acc [of "[item]" rows]
      by (auto split: sum.splits)
  qed
qed

lemma scanRows_ok:
  "scanRows [] rows = Inr items \<Longrightarrow> map Inr items = map Scan rows"
proof (induction rows arbitrary: items)
  case Nil
  then show ?case by simp
next
  case (Cons row rows)
  show ?case
  proof (cases "Scan row")
    case (Inl e)
    with Cons.prems show ?thesis by simp
  next
    case (Inr item)
    with Cons.prems obtain rest where "scanRows [] rows = Inr rest" "items = item # rest"
      using scanRows_acc [of "[item]" rows] by (auto split: sum.splits)
    with Cons.IH [of rest] Inr show ?thesis by simp
  qed
qed

lemma scanRows_err:
  "scanRows [] rows = Inl e \<Longrightarrow>
     \<exists>row e'. row \<in> set rows \<and> Scan row = Inl e' \<and> e = Errorf_w ''scanning row: '' e'"
proof (induction rows)
  case Nil
  then show ?case by simp
next
  case (Cons row rows)
  show ?case
  proof (cases "Scan row")
    case (Inl e')
    with Cons.prems show ?thesis by auto
  next
    case (Inr item)
    with Cons.prems have "scanRows [] rows = Inl e"
      using scanRows_acc [of "[item]" rows] by (auto split: sum.splits)
    with Cons.IH show ?thesis by auto
  qed
qed


lemma scanRows_find:
  "scanRows [] rows =
     (case find (\<lambda>row. isl (Scan row)) rows of
        Some row \<Rightarrow> Inl (Errorf_w ''scanning row: '' (projl (Scan row)))
      | None \<Rightarrow> Inr (map (projr \<circ> Scan) rows))"
proof (induction rows)
  case Nil
  then show ?case by simp
next
  case (Cons row rows)
  show ?case
  proof (cases "Scan row")
    case (Inl e)
    then show ?thesis by simp
  next
    case (Inr item)
    then show ?thesis
      using Cons.IH scanRows_acc [of "[item]" rows]
      by (simp split: option.splits sum.splits)
  qed
qed

lemma ListItems_result:
  "fst (ListItems r tf gf d) =
     (case fst (db r (listQuery tf gf) (listArgs tf gf) d) of
        Inl e \<Rightarrow> ([], Some (Errorf_w ''executing query: '' e))
      | Inr rows \<Rightarrow>
         (case find (\<lambda>row. isl (Scan row)) (fetched rows) of
            Some row \<Rightarrow> ([], Some (Errorf_w ''scanning row: '' (projl (Scan row))))
          | None \<Rightarrow>
             (case iter_err rows of
                Some e \<Rightarrow> ([], Some (Errorf_w ''iterating rows: '' e))
              | None \<Rightarrow> (map (projr \<circ> Scan) (fetched rows), None))))"
  by (cases "db r (listQuery tf gf) (listArgs tf gf) d")
     (simp add: ListItems_def scanRows_find split: sum.splits option.splits)

lemma ListItems_state:
  "snd (ListItems r tf gf d) = snd (db r (listQuery tf gf) (listArgs tf gf) d)"
  by (cases "db r (listQuery tf gf) (listArgs tf gf) d")
     (simp add: ListItems_def split: sum.splits option.splits)

lemma GetByStableID_fst:
  "fst (GetByStableID r sid d) =
     (case QueryRow_Scan (fst (db r getQuery [sid] d)) of
        Inl e \<Rightarrow> (None, Some (Errorf_w ''fetching item: '' e))
      | Inr item \<Rightarrow> (Some item, None))"
  by (cases "db r getQuery [sid] d")
     (simp add: GetByStableID_def getQuery_def split: sum.splits)

lemma GetByStableID_state:
  "snd (GetByStableID r sid d) = snd (db r getQuery [sid] d)"
  by (cases "db r getQuery [sid] d")
     (simp add: GetByStableID_def getQuery_def split: sum.splits)

section \<open>Truncation (claim C8)\<close>

lemma truncateString_long:
  assumes n: "3 \<le> sint n" and long: "sint n < int (RuneCountInString s)"
  shows "truncateString s n =
           Some (string_of_runes (take (nat (sint n - 3)) (runes_of_string s)) @ ''...'')"
    and "int (RuneCountInString
           (string_of_runes (take (nat (sint n - 3)) (runes_of_string s)) @ ''...'')) = sint n"
proof -
  have len: "sint n - 3 \<le> int (length (runes_of_string s))"
    using long by (simp add: RuneCount_runes)
  show "truncateString s n =
           Some (string_of_runes (take (nat (sint n - 3)) (runes_of_string s)) @ ''...'')"
    using n long len by (simp add: truncateString_def sint_sub3 Let_def)
  have "length (take (nat (sint n - 3)) (runes_of_string s)) = nat (sint n - 3)"
    using len by simp
  then show "int (RuneCountInString
           (string_of_runes (take (nat (sint n - 3)) (runes_of_string s)) @ ''...'')) = sint n"
    using n by (simp add: RuneCount_string_of_runes RuneCount_dots)
qed

lemma truncateString_short:
  "int (RuneCountInString s) \<le> sint n \<Longrightarrow> truncateString s n = Some s"
  by (simp add: truncateString_def)

text \<open>
  Claim C8. \<open>truncateString\<close> is total and width-bounded for every width \<open>n \<ge> 3\<close>:
  it returns \<open>s\<close> itself when \<open>s\<close> has at most \<open>n\<close> runes, and otherwise a
  string of exactly \<open>n\<close> runes that ends in \<open>...\<close>. In particular the calls with
  the widths 25 and 15 never panic (never slice out of range).
\<close>

theorem truncateString_width:
  "(3 \<le> sint n \<longrightarrow>
      (\<exists>t. truncateString s n = Some t \<and>
           (int (RuneCountInString s) \<le> sint n \<longrightarrow> t = s) \<and>
           (sint n < int (RuneCountInString s) \<longrightarrow>
              int (RuneCountInString t) = sint n \<and> suffix ''...'' t))) \<and>
   truncateString s 25 \<noteq> None \<and> truncateString s 15 \<noteq> None"
proof -
  have gen: "\<exists>t. truncateString s n = Some t \<and>
           (int (RuneCountInString s) \<le> sint n \<longrightarrow> t = s) \<and>
           (sint n < int (RuneCountInString s) \<longrightarrow>
              int (RuneCountInString t) = sint n \<and> suffix ''...'' t)"
    if "3 \<le> sint n" for n
  proof (cases "int (RuneCountInString s) \<le> sint n")
    case True
    then show ?thesis by (simp add: truncateString_def)
  next
    case False
    then have long: "sint n < int (RuneCountInString s)" by simp
    show ?thesis
      using truncateString_long [OF that long] long by (simp add: suffix_def)
  qed
  have "3 \<le> sint (25 :: 64 word)" "3 \<le> sint (15 :: 64 word)" by simp_all
  then have "truncateString s 25 \<noteq> None" "truncateString s 15 \<noteq> None"
    using gen [of 25] gen [of 15] by auto
  with gen show ?thesis by blast
qed

theorem truncateString_width_witness:
  "3 \<le> sint (5 :: 64 word) \<and> sint (5 :: 64 word) < int (RuneCountInString ''abcdefgh'') \<and>
   (\<exists>t. truncateString ''abcdefgh'' 5 = Some t \<and>
        int (RuneCountInString t) = sint (5 :: 64 word) \<and> suffix ''...'' t)"
proof -
  have c: "RuneCountInString ''abcdefgh'' = 8" by code_simp
  have h: "3 \<le> sint (5 :: 64 word)" by simp
  from truncateString_width [of 5 "''abcdefgh''"] h c show ?thesis by simp
qed

section \<open>Attachment-path resolution (claim C1)\<close>

lemma HasPrefix_single: "HasPrefix (x # xs) [c] = (x = c)"
  by (simp add: HasPrefix_def)

lemma Index_single:
  "Index s [c] = (if c \<in> set s then Some (length (takeWhile (\<lambda>x. x \<noteq> c) s)) else None)"
  by (induction s) (auto simp: HasPrefix_single)

lemma take_length_takeWhile: "take (length (takeWhile P s)) s = takeWhile P s"
  by (induction s) auto

lemma drop_Suc_length_takeWhile:
  "drop (Suc (length (takeWhile P s))) s = drop 1 (dropWhile P s)"
  by (induction s) auto

lemma Count_single:
  "Count s [c] = (if c \<in> set s then 1 + Count (drop 1 (dropWhile (\<lambda>x. x \<noteq> c) s)) [c] else 0)"
  by (subst Count.simps) (simp add: Index_single drop_Suc_length_takeWhile)

lemma splitLoop_single:
  "splitLoop (Suc k) s [c] 0 =
     (if c \<in> set s
      then takeWhile (\<lambda>x. x \<noteq> c) s # splitLoop k (drop 1 (dropWhile (\<lambda>x. x \<noteq> c) s)) [c] 0
      else [s])"
  by (simp add: Index_single take_length_takeWhile drop_Suc_length_takeWhile)

lemma Split_single_first:
  "Split s [c] \<noteq> [] \<and> Split s [c] ! 0 = takeWhile (\<lambda>x. x \<noteq> c) s"
proof (cases "c \<in> set s")
  case False
  then have cnt0: "Count s [c] = 0" by (simp add: Count_single)
  have tw: "takeWhile (\<lambda>x. x \<noteq> c) s = s"
    using False by (auto simp add: takeWhile_eq_all_conv)
  show ?thesis
    by (simp add: Split_def genSplit_def cnt0 tw)
next
  case True
  then have cnt: "1 \<le> Count s [c]" by (simp add: Count_single)
  from True have len: "1 \<le> length s" by (cases s) auto
  define n2 where "n2 = (if int (Count s [c]) + 1 > int (length s) + 1 then int (length s) + 1
                         else int (Count s [c]) + 1)"
  have "2 \<le> n2" using cnt len by (simp add: n2_def)
  then obtain k where k: "nat (n2 - 1) = Suc k" by (cases "nat (n2 - 1)") auto
  have "Split s [c] = splitLoop (nat (n2 - 1)) s [c] 0"
    by (simp add: Split_def genSplit_def n2_def Let_def)
  with k True show ?thesis by (simp add: splitLoop_single del: splitLoop.simps(2))
qed

lemma SplitN_single_2:
  "SplitN e [c] 2 =
     (if c \<in> set e then [takeWhile (\<lambda>x. x \<noteq> c) e, drop 1 (dropWhile (\<lambda>x. x \<noteq> c) e)]
      else [e])"
proof (cases "e = []")
  case True
  then show ?thesis by (simp add: SplitN_def genSplit_def)
next
  case False
  then have "1 \<le> length e" by (cases e) auto
  then have "nat ((if (2::int) > int (length e) + 1 then int (length e) + 1 else 2) - 1) = Suc 0"
    by auto
  then have "SplitN e [c] 2 = splitLoop (Suc 0) e [c] 0"
    by (simp add: SplitN_def genSplit_def Let_def)
  then show ?thesis by (simp add: splitLoop_single del: splitLoop.simps(2))
qed


text \<open>
  Claim C1, amended. Attachment-path resolution takes the first attachment pair of the
  comma-joined attachments field, splits that pair at its first colon into the
  attachment key and the relative path segment, strips the prefix \<open>storage:\<close> from
  the segment, and returns the join of the storage root, the key and the stripped
  segment. It returns the empty string when the attachments field is absent or empty,
  and also when the first pair contains no colon.
\<close>

theorem getStoragePath_resolve:
  "getStoragePath c item =
     (let a = String (Attachments item);
          pair = takeWhile (\<lambda>x. x \<noteq> CHR '','') a
      in if \<not> Valid (Attachments item) \<or> a = [] \<or> CHR '':'' \<notin> set pair then []
         else filepath_Join
                [StoragePath (CLI.cfg c),
                 takeWhile (\<lambda>x. x \<noteq> CHR '':'') pair,
                 TrimPrefix (drop 1 (dropWhile (\<lambda>x. x \<noteq> CHR '':'') pair)) ''storage:''])"
  using Split_single_first [of "String (Attachments item)" "CHR '',''"]
  by (simp add: getStoragePath_def Let_def SplitN_single_2)



text \<open>As the claim is worded it fails for an item whose first pair has no colon:
  \<open>getStoragePath\<close> returns the empty string there, not a join.\<close>

theorem getStoragePath_counterexample:
  "getStoragePath exampleCLI (itemWith (Some ''nocolon'')) = [] \<and>
   getStoragePath_as_claimed exampleCLI (itemWith (Some ''nocolon'')) = ''/data/storage/nocolon''"
  by code_simp

theorem getStoragePath_resolve_witness:
  "getStoragePath exampleCLI (itemWith (Some ''EFGH5678:storage:paper.pdf,IJKL9012:storage:b.pdf''))
     = ''/data/storage/EFGH5678/paper.pdf'' \<and>
   getStoragePath exampleCLI (itemWith None) = []"
proof -
  have "getStoragePath exampleCLI (itemWith (Some ''EFGH5678:storage:paper.pdf,IJKL9012:storage:b.pdf''))
     = ''/data/storage/EFGH5678/paper.pdf''"
    unfolding getStoragePath_resolve [of exampleCLI] by code_simp
  moreover have "getStoragePath exampleCLI (itemWith None) = []"
    unfolding getStoragePath_resolve [of exampleCLI] by code_simp
  ultimately show ?thesis by simp
qed
section \<open>Printing an item (claims C3 and C9)\<close>

lemma sint_widths: "sint (25 :: 64 word) = 25" "sint (15 :: 64 word) = 15"
  by simp_all

lemma truncateString_25:
  "truncateString s 25 =
     Some (if RuneCountInString s \<le> 25 then s
           else string_of_runes (take 22 (runes_of_string s)) @ ''...'')"
proof (cases "RuneCountInString s \<le> 25")
  case True
  then show ?thesis by (simp add: truncateString_short)
next
  case False
  then have "sint (25 :: 64 word) < int (RuneCountInString s)" by simp
  from truncateString_long(1) [OF _ this] False show ?thesis by simp
qed

lemma truncateString_15:
  "truncateString s 15 =
     Some (if RuneCountInString s \<le> 15 then s
           else string_of_runes (take 12 (runes_of_string s)) @ ''...'')"
proof (cases "RuneCountInString s \<le> 15")
  case True
  then show ?thesis by (simp add: truncateString_short)
next
  case False
  then have "sint (15 :: 64 word) < int (RuneCountInString s)" by simp
  from truncateString_long(1) [OF _ this] False show ?thesis by simp
qed

lemma RuneCount_truncated:
  "k + 3 \<le> RuneCountInString s \<Longrightarrow>
   RuneCountInString (string_of_runes (take k (runes_of_string s)) @ ''...'') = k + 3"
proof -
  assume "k + 3 \<le> RuneCountInString s"
  then have "k \<le> length (runes_of_string s)" by (simp add: RuneCount_runes)
  then show ?thesis by (simp add: RuneCount_string_of_runes RuneCount_dots)
qed

lemma shownTitle_width: "RuneCountInString (shownTitle item) \<le> 25"
  using RuneCount_truncated [of 22 "Title item"] by (simp add: shownTitle_def)

lemma shownTags_width: "RuneCountInString (shownTags item) \<le> 15"
  using RuneCount_truncated [of 12 "String (Tags item)"]
  by (simp add: shownTags_def RuneCount_Nil)

lemma concat_map_if_single:
  "concat (map (\<lambda>x. if P x then [f (g x)] else []) xs) =
   map f (concat (map (\<lambda>x. if P x then [g x] else []) xs))"
  by (induction xs) auto

lemma printItem_verbose:
  "printItem c item True =
     Some (map (formatRow (StableID item) (shownTitle item) (shownTags item)) (shownPaths c item))"
proof -
  have t: "truncateString (Title item) 25 = Some (shownTitle item)"
    by (simp add: truncateString_25 shownTitle_def)
  have g: "(if Valid (Tags item) then truncateString (String (Tags item)) 15 else Some [])
             = Some (shownTags item)"
    by (simp add: truncateString_15 shownTags_def)
  show ?thesis
    unfolding printItem_def t g shownPaths_def
    by (simp add: Let_def concat_map_if_single [where f = "formatRow (StableID item) (shownTitle item) (shownTags item)"] cong: if_cong)
qed


lemma printItem_plain: "printItem c item False = Some [StableID item @ [CHR 0x0A]]"
  by (simp add: printItem_def)

lemma shownTitle_long:
  "25 < RuneCountInString (Title item) \<Longrightarrow>
     RuneCountInString (shownTitle item) = 25 \<and> suffix ''...'' (shownTitle item)"
  using RuneCount_truncated [of 22 "Title item"] by (simp add: shownTitle_def suffix_def)

lemma shownTags_long:
  "Valid (Tags item) \<Longrightarrow> 15 < RuneCountInString (String (Tags item)) \<Longrightarrow>
     RuneCountInString (shownTags item) = 15 \<and> suffix ''...'' (shownTags item)"
  using RuneCount_truncated [of 12 "String (Tags item)"] by (simp add: shownTags_def suffix_def)

text \<open>
  Claim C3. Non-verbose output is one line that holds the identifier, in full and
  with nothing added. Every line of verbose output is the format applied to the
  identifier, the shown title, the shown tags and a storage path, where the shown
  title is the title if it has at most 25 runes and otherwise its first 22 runes
  followed by \<open>...\<close> (25 runes in all), and the shown tags are the tags if they have
  at most 15 runes and otherwise their first 12 runes followed by \<open>...\<close> (15 runes
  in all); absent tags are shown as the empty string.
\<close>

theorem printItem_output:
  "printItem c item False = Some [StableID item @ [CHR 0x0A]] \<and>
   printItem c item True =
     Some (map (formatRow (StableID item) (shownTitle item) (shownTags item))
             (shownPaths c item)) \<and>
   RuneCountInString (shownTitle item) \<le> 25 \<and>
   RuneCountInString (shownTags item) \<le> 15 \<and>
   (RuneCountInString (Title item) \<le> 25 \<longrightarrow> shownTitle item = Title item) \<and>
   (25 < RuneCountInString (Title item) \<longrightarrow>
      RuneCountInString (shownTitle item) = 25 \<and> suffix ''...'' (shownTitle item)) \<and>
   (Valid (Tags item) \<and> RuneCountInString (String (Tags item)) \<le> 15 \<longrightarrow>
      shownTags item = String (Tags item)) \<and>
   (Valid (Tags item) \<and> 15 < RuneCountInString (String (Tags item)) \<longrightarrow>
      RuneCountInString (shownTags item) = 15 \<and> suffix ''...'' (shownTags item))"
  using printItem_plain [of c item] printItem_verbose [of c item]
    shownTitle_width [of item] shownTags_width [of item]
    shownTitle_long [of item] shownTags_long [of item]
  by (simp add: shownTitle_def shownTags_def)

theorem printItem_output_witness:
  "25 < RuneCountInString (Title longItem) \<and>
   Valid (Tags longItem) \<and> 15 < RuneCountInString (String (Tags longItem)) \<and>
   shownTitle longItem = ''An unusually long titl...'' \<and>
   shownTags longItem = ''logic,verifi...'' \<and>
   RuneCountInString (shownTitle longItem) = 25 \<and>
   RuneCountInString (shownTags longItem) = 15 \<and>
   printItem exampleCLI longItem False = Some [''ABCD1234'' @ [CHR 0x0A]] \<and>
   printItem exampleCLI longItem True =
     Some [''ABCD1234'' @ [CHR 0x09] @ ''An unusually long titl...'' @ [CHR 0x09] @
           ''logic,verifi...'' @ [CHR 0x09] @ ''/data/storage/EFGH5678/paper.pdf'' @ [CHR 0x0A]]"
proof -
  have a: "RuneCountInString (Title longItem) = 34"
    "RuneCountInString (String (Tags longItem)) = 24" "Valid (Tags longItem)"
    by code_simp+
  have b: "shownTitle longItem = ''An unusually long titl...''"
    "shownTags longItem = ''logic,verifi...''"
    by code_simp+
  have c: "map (formatRow ''ABCD1234'' ''An unusually long titl...'' ''logic,verifi...'')
             (shownPaths exampleCLI longItem) =
           [''ABCD1234'' @ [CHR 0x09] @ ''An unusually long titl...'' @ [CHR 0x09] @
           ''logic,verifi...'' @ [CHR 0x09] @ ''/data/storage/EFGH5678/paper.pdf'' @ [CHR 0x0A]]"
    by code_simp
  have d: "StableID longItem = ''ABCD1234''" by code_simp
  note t = printItem_output [of exampleCLI longItem]
  from t have v: "printItem exampleCLI longItem True =
      Some (map (formatRow (StableID longItem) (shownTitle longItem) (shownTags longItem))
              (shownPaths exampleCLI longItem))"
    by blast
  from t have p: "printItem exampleCLI longItem False = Some [StableID longItem @ [CHR 0x0A]]"
    by blast
  from t a have w: "RuneCountInString (shownTitle longItem) = 25"
    "RuneCountInString (shownTags longItem) = 15"
    by simp_all
  show ?thesis
    unfolding v p using w a b c d by simp
qed

lemma shownPaths_no_colon:
  assumes "Valid (Attachments item)" and "String (Attachments item) \<noteq> []"
    and "\<forall>e \<in> set (Split (String (Attachments item)) '',''). CHR '':'' \<notin> set e"
  shows "shownPaths c item = []"
  using assms by (simp add: shownPaths_def SplitN_single_2)

lemma printItems_append:
  "printItems c (xs @ ys) verbose out =
     (case printItems c xs verbose out of
        None \<Rightarrow> None
      | Some out' \<Rightarrow> printItems c ys verbose out')"
  by (induction xs arbitrary: out) (auto split: option.splits)

text \<open>
  Claim C9. For an item whose attachments field is present and non-empty but in
  which no comma-separated entry contains a colon, verbose printing writes nothing,
  while non-verbose printing still writes the identifier. So in a listing such an
  item adds one line to the non-verbose output and nothing to the verbose output.
\<close>

theorem printItem_no_colon:
  assumes "Valid (Attachments item)" and "String (Attachments item) \<noteq> []"
    and "\<forall>e \<in> set (Split (String (Attachments item)) '',''). CHR '':'' \<notin> set e"
  shows "printItem c item True = Some [] \<and>
         printItem c item False = Some [StableID item @ [CHR 0x0A]] \<and>
         printItems c (xs @ [item] @ ys) True out = printItems c (xs @ ys) True out \<and>
         printItems c [item] False out = Some (out @ [StableID item @ [CHR 0x0A]])"
proof -
  have v: "printItem c item True = Some []"
    using shownPaths_no_colon [OF assms] by (simp add: printItem_verbose)
  have p: "printItem c item False = Some [StableID item @ [CHR 0x0A]]"
    by (rule printItem_plain)
  have "printItems c (xs @ [item] @ ys) True out = printItems c (xs @ ys) True out"
    by (simp add: printItems_append v split: option.splits)
  moreover have "printItems c [item] False out = Some (out @ [StableID item @ [CHR 0x0A]])"
    by (simp add: p)
  ultimately show ?thesis using v p by simp
qed

theorem printItem_no_colon_witness:
  "Valid (Attachments (itemWith (Some ''nocolon,none''))) \<and>
   String (Attachments (itemWith (Some ''nocolon,none''))) \<noteq> [] \<and>
   Split (String (Attachments (itemWith (Some ''nocolon,none'')))) '','' = [''nocolon'', ''none''] \<and>
   printItem exampleCLI (itemWith (Some ''nocolon,none'')) True = Some [] \<and>
   printItem exampleCLI (itemWith (Some ''nocolon,none'')) False = Some [''ABCD1234'' @ [CHR 0x0A]]"
proof -
  have s: "Split (String (Attachments (itemWith (Some ''nocolon,none'')))) '','' =
             [''nocolon'', ''none'']"
    by code_simp
  have h: "Valid (Attachments (itemWith (Some ''nocolon,none'')))"
    "String (Attachments (itemWith (Some ''nocolon,none''))) \<noteq> []"
    "\<forall>e \<in> set (Split (String (Attachments (itemWith (Some ''nocolon,none'')))) '','').
      CHR '':'' \<notin> set e"
    unfolding s by code_simp+
  have d: "StableID (itemWith (Some ''nocolon,none'')) = ''ABCD1234''" by code_simp
  from printItem_no_colon [OF h, of exampleCLI] h(1,2) s d show ?thesis by simp
qed

section \<open>Errors, effects and the entry point (claims C4, C5 and C10)\<close>


lemma printItem_total: "printItem c item verbose \<noteq> None"
  by (cases verbose) (simp_all add: printItem_plain printItem_verbose)

lemma printItems_total: "\<exists>lines. printItems c items verbose out = Some (out @ lines)"
proof (induction items arbitrary: out)
  case Nil
  then show ?case by simp
next
  case (Cons item items)
  obtain ls where ls: "printItem c item verbose = Some ls"
    using printItem_total [of c item verbose] by auto
  from Cons [of "out @ ls"] obtain lines where
    "printItems c items verbose (out @ ls) = Some (out @ ls @ lines)" by auto
  with ls show ?case by auto
qed

lemma List_result:
  "\<exists>lines.
     List c tf gf v w =
       (case fst (ListItems (repo c) tf gf (database w)) of
          (items, Some e) \<Rightarrow>
            Some (Some (Errorf_w ''listing items: '' e),
                  w\<lparr>database := snd (ListItems (repo c) tf gf (database w))\<rparr>)
        | (items, None) \<Rightarrow>
            Some (None, w\<lparr>database := snd (ListItems (repo c) tf gf (database w)),
                          stdout := stdout w @ lines\<rparr>))"
proof -
  obtain items err d' where l: "ListItems (repo c) tf gf (database w) = ((items, err), d')"
    by (metis prod.exhaust)
  show ?thesis
  proof (cases err)
    case (Some e)
    with l show ?thesis by (simp add: List_def)
  next
    case None
    obtain lines where
      "printItems c items v (stdout w) = Some (stdout w @ lines)"
      using printItems_total [of c items v "stdout w"] by auto
    with l None show ?thesis by (auto simp add: List_def)
  qed
qed


lemma Open_result:
  "Open c sid w =
     (let w' = w\<lparr>database := snd (db (repo c) getQuery [sid] (database w))\<rparr> in
      case QueryRow_Scan (fst (db (repo c) getQuery [sid] (database w))) of
        Inl e \<Rightarrow>
          Some (Some (Errorf_w ''getting item: '' (Errorf_w ''fetching item: '' e)), w')
      | Inr item \<Rightarrow>
          if getStoragePath c item = [] then
            Some (Some (Errorf_s ''no attachment found for item: '' sid), w')
          else
            (case cmd_Run w [''open'', getStoragePath c item] of
               Some e \<Rightarrow>
                 Some (Some (Errorf_w ''opening file: '' e),
                       w'\<lparr>launched := launched w @ [[''open'', getStoragePath c item]]\<rparr>)
             | None \<Rightarrow>
                 Some (None,
                       w'\<lparr>launched := launched w @ [[''open'', getStoragePath c item]]\<rparr>)))"
proof -
  obtain res d' where a: "db (repo c) getQuery [sid] (database w) = (res, d')"
    by (metis prod.exhaust)
  show ?thesis
    using GetByStableID_ok [OF a] GetByStableID_err [OF a]
    by (cases "QueryRow_Scan res") (simp_all add: Open_def a Let_def split: option.splits)
qed

lemma Reference_result:
  "Reference c sid w =
     (let w' = w\<lparr>database := snd (db (repo c) getQuery [sid] (database w))\<rparr> in
      case QueryRow_Scan (fst (db (repo c) getQuery [sid] (database w))) of
        Inl e \<Rightarrow>
          Some (Some (Errorf_w ''getting item: '' (Errorf_w ''fetching item: '' e)), w')
      | Inr item \<Rightarrow>
          if getStoragePath c item = [] then
            Some (Some (Errorf_s ''no attachment found for item: '' sid), w')
          else
            Some (None,
                  w'\<lparr>stdout := stdout w @
                     [formatReference (Title item) (StableID item)
                        (''{'' @ (if Valid (Tags item) then String (Tags item) else []) @ ''}'')
                        (Version (CLI.cfg c)) (getStoragePath c item)]\<rparr>))"
proof -
  obtain res d' where a: "db (repo c) getQuery [sid] (database w) = (res, d')"
    by (metis prod.exhaust)
  show ?thesis
    using GetByStableID_ok [OF a] GetByStableID_err [OF a]
    by (cases "QueryRow_Scan res") (simp_all add: Reference_def a Let_def split: option.splits)
qed

lemma main_dispatch:
  assumes "sql_Open w ''sqlite3'' ''/Users/vania/data/zotero/zotero.sqlite'' = Inr dbh"
  shows "main tf gf v [] w = finish ''Error listing items: '' w (List (mainCLI dbh) tf gf v w)"
    and "main tf gf v [''open'', sid] w = finish ''Error opening item: '' w (Open (mainCLI dbh) sid w)"
    and "main tf gf v [''reference'', sid] w =
           finish ''Error generating reference: '' w (Reference (mainCLI dbh) sid w)"
    and "length rest \<noteq> 1 \<Longrightarrow>
           main tf gf v (''open'' # rest) w = Fatal ''Usage: store-zotero open <stableid>'' w"
    and "length rest \<noteq> 1 \<Longrightarrow>
           main tf gf v (''reference'' # rest) w =
             Fatal ''Usage: store-zotero reference <stableid>'' w"
    and "command \<noteq> ''open'' \<Longrightarrow> command \<noteq> ''reference'' \<Longrightarrow>
           main tf gf v (command # rest) w = Fatal (''Unknown command: '' @ command) w"
  using assms by (simp_all add: main_def mainCLI_def mainConfig_def Let_def)

lemma main_no_database:
  "sql_Open w ''sqlite3'' ''/Users/vania/data/zotero/zotero.sqlite'' = Inl e \<Longrightarrow>
     main tf gf v args w = Fatal (''Error opening database: '' @ Error e) w"
  by (simp add: main_def)



text \<open>
  Claim C10. \<open>Open\<close> always returns (it never panics), and it launches the OS-level
  \<open>open\<close> command at most once: when the fetch of the item fails or the resolved path
  is empty, it returns an error and launches nothing; otherwise it launches exactly the
  command \<open>open\<close> with the resolved, non-empty path.
\<close>

theorem Open_launches_at_most_once:
  "\<exists>err w'. Open c sid w = Some (err, w') \<and>
     length (launched w') \<le> length (launched w) + 1 \<and>
     (case fst (GetByStableID (repo c) sid (database w)) of
        (fetched_item, fetch_err) \<Rightarrow>
          (case fetch_err of
             Some e \<Rightarrow> err \<noteq> None \<and> launched w' = launched w
           | None \<Rightarrow>
              (case fetched_item of
                 None \<Rightarrow> False
               | Some item \<Rightarrow>
                   if getStoragePath c item = [] then err \<noteq> None \<and> launched w' = launched w
                   else launched w' = launched w @ [[''open'', getStoragePath c item]])))"
  by (cases "QueryRow_Scan (fst (db (repo c) getQuery [sid] (database w)))")
     (auto simp add: Open_result GetByStableID_fst Let_def split: option.splits)

lemma Error_Errorf_w: "Error (Errorf_w ctx e) = ctx @ Error e" "Unwrap (Errorf_w ctx e) = Some e"
  by (simp_all add: Errorf_w_def)

lemma finish_status:
  "fst (finish pre w res) = (case res of None \<Rightarrow> 2 | Some (Some e, w') \<Rightarrow> 1 | Some (None, w') \<Rightarrow> 0)"
  by (simp add: finish_def Fatal_def panicked_def split: option.splits prod.splits)

lemma finish_error:
  "finish pre w (Some (Some e, w')) = (1, w'\<lparr>stderr := stderr w' @ [pre @ Error e @ [CHR 0x0A]]\<rparr>)"
  by (simp add: finish_def Fatal_def)

lemma finish_ok: "finish pre w (Some (None, w')) = (0, w')"
  by (simp add: finish_def)


theorem Open_launches_at_most_once_witness:
  "fst (GetByStableID (repo (exampleCLIon (oneRowDB exampleRow))) ''ABCD1234''
          (database (exampleWorld (oneRowDB exampleRow)))) =
     (Some (itemWith (Some ''EFGH5678:storage:paper.pdf'')), None) \<and>
   (\<exists>err w'. Open (exampleCLIon (oneRowDB exampleRow)) ''ABCD1234''
               (exampleWorld (oneRowDB exampleRow)) = Some (err, w') \<and>
             launched w' = [[''open'', ''/data/storage/EFGH5678/paper.pdf'']]) \<and>
   (\<exists>err w'. Open (exampleCLIon noDB) ''ABCD1234'' (exampleWorld noDB) = Some (err, w') \<and>
             err \<noteq> None \<and> launched w' = [])"
proof -
  have g: "fst (GetByStableID (repo (exampleCLIon (oneRowDB exampleRow))) ''ABCD1234''
          (database (exampleWorld (oneRowDB exampleRow)))) =
     (Some (itemWith (Some ''EFGH5678:storage:paper.pdf'')), None)"
    by code_simp
  have p: "getStoragePath (exampleCLIon (oneRowDB exampleRow))
             (itemWith (Some ''EFGH5678:storage:paper.pdf'')) =
           ''/data/storage/EFGH5678/paper.pdf''"
    by code_simp
  have l: "launched (exampleWorld dbh) = []" for dbh
    by (simp add: exampleWorld_def)
  have n: "fst (GetByStableID (repo (exampleCLIon noDB)) ''ABCD1234''
             (database (exampleWorld noDB))) =
           (None, Some (Errorf_w ''fetching item: '' ErrNoRows))"
    by code_simp
  from Open_launches_at_most_once
         [of "exampleCLIon (oneRowDB exampleRow)" "''ABCD1234''" "exampleWorld (oneRowDB exampleRow)"]
  have a: "\<exists>err w'. Open (exampleCLIon (oneRowDB exampleRow)) ''ABCD1234''
               (exampleWorld (oneRowDB exampleRow)) = Some (err, w') \<and>
             launched w' = [[''open'', ''/data/storage/EFGH5678/paper.pdf'']]"
    unfolding g by (auto simp add: p l)
  from Open_launches_at_most_once [of "exampleCLIon noDB" "''ABCD1234''" "exampleWorld noDB"]
  have b: "\<exists>err w'. Open (exampleCLIon noDB) ''ABCD1234'' (exampleWorld noDB) = Some (err, w') \<and>
             err \<noteq> None \<and> launched w' = []"
    unfolding n by (auto simp add: l)
  from g a b show ?thesis by blast
qed



lemma main_status_zero:
  "fst (main tf gf v args w) = 0 \<longleftrightarrow>
     (\<exists>dbh w'. sql_Open w ''sqlite3'' ''/Users/vania/data/zotero/zotero.sqlite'' = Inr dbh \<and>
        (args = [] \<and> List (mainCLI dbh) tf gf v w = Some (None, w') \<or>
         (\<exists>sid. args = [''open'', sid] \<and> Open (mainCLI dbh) sid w = Some (None, w')) \<or>
         (\<exists>sid. args = [''reference'', sid] \<and> Reference (mainCLI dbh) sid w = Some (None, w'))))"
proof (cases "sql_Open w ''sqlite3'' ''/Users/vania/data/zotero/zotero.sqlite''")
  case (Inl e)
  then show ?thesis by (simp add: main_no_database Fatal_def)
next
  case (Inr dbh)
  note d = main_dispatch [OF Inr]
  have z: "fst (finish pre w res) = 0 \<longleftrightarrow> (\<exists>w'. res = Some (None, w'))" for pre res
    by (auto simp add: finish_status split: option.splits prod.splits)
  show ?thesis
  proof (cases args)
    case Nil
    then show ?thesis using Inr by (simp add: d z)
  next
    case (Cons command rest)
    consider (o1) "command = ''open''" "length rest = 1"
      | (o2) "command = ''open''" "length rest \<noteq> 1"
      | (r1) "command = ''reference''" "length rest = 1"
      | (r2) "command = ''reference''" "length rest \<noteq> 1"
      | (u) "command \<noteq> ''open''" "command \<noteq> ''reference''"
      by blast
    then show ?thesis
    proof cases
      case o1
      then obtain sid where "rest = [sid]" by (cases rest) auto
      with o1 Cons Inr show ?thesis by (simp add: d z)
    next
      case o2
      with Cons Inr show ?thesis by (auto simp add: d Fatal_def)
    next
      case r1
      then obtain sid where "rest = [sid]" by (cases rest) auto
      with r1 Cons Inr show ?thesis by (simp add: d z)
    next
      case r2
      with Cons Inr show ?thesis by (auto simp add: d Fatal_def)
    next
      case u
      with Cons Inr show ?thesis by (auto simp add: d Fatal_def)
    qed
  qed
qed

text \<open>
  Claim C5. With no positional argument \<open>main\<close> performs the listing with the title
  filter, the tag filter and the verbosity flag; \<open>open <id>\<close> and \<open>reference <id>\<close>
  take exactly one identifier and perform the operation on it; a wrong number of
  arguments, an unknown subcommand, a database that cannot be opened and an error of
  the operation end the process with status 1 (a panic would end it with status 2).
  The exit status is 0 exactly when the dispatched operation returns without an error.
\<close>

theorem main_dispatches:
  "(\<forall>e. sql_Open w ''sqlite3'' ''/Users/vania/data/zotero/zotero.sqlite'' = Inl e \<longrightarrow>
        main tf gf v args w = Fatal (''Error opening database: '' @ Error e) w) \<and>
   (\<forall>dbh. sql_Open w ''sqlite3'' ''/Users/vania/data/zotero/zotero.sqlite'' = Inr dbh \<longrightarrow>
      main tf gf v [] w = finish ''Error listing items: '' w (List (mainCLI dbh) tf gf v w) \<and>
      main tf gf v [''open'', sid] w =
        finish ''Error opening item: '' w (Open (mainCLI dbh) sid w) \<and>
      main tf gf v [''reference'', sid] w =
        finish ''Error generating reference: '' w (Reference (mainCLI dbh) sid w) \<and>
      (length rest \<noteq> 1 \<longrightarrow>
         main tf gf v (''open'' # rest) w = Fatal ''Usage: store-zotero open <stableid>'' w) \<and>
      (length rest \<noteq> 1 \<longrightarrow>
         main tf gf v (''reference'' # rest) w =
           Fatal ''Usage: store-zotero reference <stableid>'' w) \<and>
      (command \<noteq> ''open'' \<and> command \<noteq> ''reference'' \<longrightarrow>
         main tf gf v (command # rest) w = Fatal (''Unknown command: '' @ command) w)) \<and>
   fst (Fatal msg w) = 1 \<and>
   fst (finish pre w res) =
     (case res of None \<Rightarrow> 2 | Some (Some e, w') \<Rightarrow> 1 | Some (None, w') \<Rightarrow> 0) \<and>
   (fst (main tf gf v args w) = 0 \<longleftrightarrow>
     (\<exists>dbh w'. sql_Open w ''sqlite3'' ''/Users/vania/data/zotero/zotero.sqlite'' = Inr dbh \<and>
        (args = [] \<and> List (mainCLI dbh) tf gf v w = Some (None, w') \<or>
         (\<exists>sid. args = [''open'', sid] \<and> Open (mainCLI dbh) sid w = Some (None, w')) \<or>
         (\<exists>sid. args = [''reference'', sid] \<and> Reference (mainCLI dbh) sid w = Some (None, w')))))"
proof -
  have a: "\<forall>e. sql_Open w ''sqlite3'' ''/Users/vania/data/zotero/zotero.sqlite'' = Inl e \<longrightarrow>
        main tf gf v args w = Fatal (''Error opening database: '' @ Error e) w"
    by (simp add: main_no_database)
  have b: "fst (Fatal msg w) = 1" by (simp add: Fatal_def)
  show ?thesis
    using a b finish_status [of pre w res] main_status_zero [of tf gf v args w]
    by (intro conjI allI impI) (simp_all add: main_dispatch del: One_nat_def)
qed


theorem main_dispatches_witness:
  "sql_Open (exampleWorld noDB) ''sqlite3'' ''/Users/vania/data/zotero/zotero.sqlite'' = Inr noDB \<and>
   main [] [] False [''frobnicate''] (exampleWorld noDB) =
     Fatal ''Unknown command: frobnicate'' (exampleWorld noDB) \<and>
   main [] [] False [''open'', ''ABCD1234'', ''extra''] (exampleWorld noDB) =
     Fatal ''Usage: store-zotero open <stableid>'' (exampleWorld noDB) \<and>
   fst (main [] [] False [''open'', ''ABCD1234''] (exampleWorld noDB)) = 1 \<and>
   fst (main [] [] False [] (exampleWorld (oneRowDB exampleRow))) = 0 \<and>
   stdout (snd (main [] [] False [] (exampleWorld (oneRowDB exampleRow)))) =
     [''ABCD1234'' @ [CHR 0x0A]]"
proof -
  have o: "sql_Open (exampleWorld dbh) ''sqlite3'' ''/Users/vania/data/zotero/zotero.sqlite'' = Inr dbh"
    for dbh
    by (simp add: exampleWorld_def)
  note n = main_dispatches [of "exampleWorld noDB" "[]" "[]" False _ "''ABCD1234''"
      "[''ABCD1234'', ''extra'']" "''frobnicate''"]
  note u = main_dispatches [of "exampleWorld noDB" "[]" "[]" False _ _ "[]" "''frobnicate''"]
  note r = main_dispatches [of "exampleWorld (oneRowDB exampleRow)" "[]" "[]" False]
  from u o have 1: "main [] [] False [''frobnicate''] (exampleWorld noDB) =
     Fatal ''Unknown command: frobnicate'' (exampleWorld noDB)"
    by simp
  from n o have 2: "main [] [] False [''open'', ''ABCD1234'', ''extra''] (exampleWorld noDB) =
     Fatal ''Usage: store-zotero open <stableid>'' (exampleWorld noDB)"
    by simp
  from n o have 3: "main [] [] False [''open'', ''ABCD1234''] (exampleWorld noDB) =
      finish ''Error opening item: '' (exampleWorld noDB)
        (Open (mainCLI noDB) ''ABCD1234'' (exampleWorld noDB))"
    by simp
  from r o have 4: "main [] [] False [] (exampleWorld (oneRowDB exampleRow)) =
      finish ''Error listing items: '' (exampleWorld (oneRowDB exampleRow))
        (List (mainCLI (oneRowDB exampleRow)) [] [] False (exampleWorld (oneRowDB exampleRow)))"
    by simp
  have 5: "fst (finish ''Error opening item: '' (exampleWorld noDB)
        (Open (mainCLI noDB) ''ABCD1234'' (exampleWorld noDB))) = 1"
    by code_simp
  have 6: "fst (finish ''Error listing items: '' (exampleWorld (oneRowDB exampleRow))
        (List (mainCLI (oneRowDB exampleRow)) [] [] False (exampleWorld (oneRowDB exampleRow)))) = 0"
    by code_simp
  have 7: "stdout (snd (finish ''Error listing items: '' (exampleWorld (oneRowDB exampleRow))
        (List (mainCLI (oneRowDB exampleRow)) [] [] False (exampleWorld (oneRowDB exampleRow))))) =
     [''ABCD1234'' @ [CHR 0x0A]]"
    by code_simp
  show ?thesis
    unfolding 3 4 using o 1 2 5 6 7 by simp
qed



lemma main_fatal:
  assumes "sql_Open w ''sqlite3'' ''/Users/vania/data/zotero/zotero.sqlite'' = Inr dbh"
  shows "List (mainCLI dbh) tf gf v w = Some (Some e, w') \<Longrightarrow>
           main tf gf v [] w =
             (1, w'\<lparr>stderr := stderr w' @ [''Error listing items: '' @ Error e @ [CHR 0x0A]]\<rparr>)"
    and "Open (mainCLI dbh) sid w = Some (Some e, w') \<Longrightarrow>
           main tf gf v [''open'', sid] w =
             (1, w'\<lparr>stderr := stderr w' @ [''Error opening item: '' @ Error e @ [CHR 0x0A]]\<rparr>)"
    and "Reference (mainCLI dbh) sid w = Some (Some e, w') \<Longrightarrow>
           main tf gf v [''reference'', sid] w =
             (1, w'\<lparr>stderr := stderr w' @
                    [''Error generating reference: '' @ Error e @ [CHR 0x0A]]\<rparr>)"
  by (simp_all add: main_dispatch [OF assms] finish_error)

text \<open>
  Claim C4. Each repository and CLI operation returns an error exactly when a step
  fails: the fetch of the item (the query, the iteration, no row, the scan or the
  closing); the execution of the list query (the call of the query or the iteration
  over its rows); the scan of a row; the resolution of the attachment path (empty); the
  run of the OS \<open>open\<close> command. The error is wrapped with a context message at each
  level, nothing is returned beside it (no item, no items, nothing written to standard
  output), and at the entry point it ends the process with status 1 and a log line
  that holds the whole chain of messages.
\<close>

theorem errors_reach_the_entry_point:
  "fst (GetByStableID r sid d) =
     (case QueryRow_Scan (fst (db r getQuery [sid] d)) of
        Inl e \<Rightarrow> (None, Some (Errorf_w ''fetching item: '' e))
      | Inr item \<Rightarrow> (Some item, None)) \<and>
   fst (ListItems r tf gf d) =
     (case fst (db r (listQuery tf gf) (listArgs tf gf) d) of
        Inl e \<Rightarrow> ([], Some (Errorf_w ''executing query: '' e))
      | Inr rows \<Rightarrow>
         (case find (\<lambda>row. isl (Scan row)) (fetched rows) of
            Some row \<Rightarrow> ([], Some (Errorf_w ''scanning row: '' (projl (Scan row))))
          | None \<Rightarrow>
             (case iter_err rows of
                Some e \<Rightarrow> ([], Some (Errorf_w ''iterating rows: '' e))
              | None \<Rightarrow> (map (projr \<circ> Scan) (fetched rows), None)))) \<and>
   (\<exists>lines.
     List c tf gf v w =
       (case fst (ListItems (repo c) tf gf (database w)) of
          (items, Some e) \<Rightarrow>
            Some (Some (Errorf_w ''listing items: '' e),
                  w\<lparr>database := snd (ListItems (repo c) tf gf (database w))\<rparr>)
        | (items, None) \<Rightarrow>
            Some (None, w\<lparr>database := snd (ListItems (repo c) tf gf (database w)),
                          stdout := stdout w @ lines\<rparr>))) \<and>
   Open c sid w =
     (let w' = w\<lparr>database := snd (db (repo c) getQuery [sid] (database w))\<rparr> in
      case QueryRow_Scan (fst (db (repo c) getQuery [sid] (database w))) of
        Inl e \<Rightarrow>
          Some (Some (Errorf_w ''getting item: '' (Errorf_w ''fetching item: '' e)), w')
      | Inr item \<Rightarrow>
          if getStoragePath c item = [] then
            Some (Some (Errorf_s ''no attachment found for item: '' sid), w')
          else
            (case cmd_Run w [''open'', getStoragePath c item] of
               Some e \<Rightarrow>
                 Some (Some (Errorf_w ''opening file: '' e),
                       w'\<lparr>launched := launched w @ [[''open'', getStoragePath c item]]\<rparr>)
             | None \<Rightarrow>
                 Some (None,
                       w'\<lparr>launched := launched w @ [[''open'', getStoragePath c item]]\<rparr>))) \<and>
   Reference c sid w =
     (let w' = w\<lparr>database := snd (db (repo c) getQuery [sid] (database w))\<rparr> in
      case QueryRow_Scan (fst (db (repo c) getQuery [sid] (database w))) of
        Inl e \<Rightarrow>
          Some (Some (Errorf_w ''getting item: '' (Errorf_w ''fetching item: '' e)), w')
      | Inr item \<Rightarrow>
          if getStoragePath c item = [] then
            Some (Some (Errorf_s ''no attachment found for item: '' sid), w')
          else
            Some (None,
                  w'\<lparr>stdout := stdout w @
                     [formatReference (Title item) (StableID item)
                        (''{'' @ (if Valid (Tags item) then String (Tags item) else []) @ ''}'')
                        (Version (CLI.cfg c)) (getStoragePath c item)]\<rparr>)) \<and>
   Error (Errorf_w ctx e) = ctx @ Error e \<and> Unwrap (Errorf_w ctx e) = Some e \<and>
   Error (Errorf_s ctx sid) = ctx @ sid \<and>
   (\<forall>dbh. sql_Open w ''sqlite3'' ''/Users/vania/data/zotero/zotero.sqlite'' = Inr dbh \<longrightarrow>
      (\<forall>e w'. List (mainCLI dbh) tf gf v w = Some (Some e, w') \<longrightarrow>
         main tf gf v [] w =
           (1, w'\<lparr>stderr := stderr w' @ [''Error listing items: '' @ Error e @ [CHR 0x0A]]\<rparr>)) \<and>
      (\<forall>e w'. Open (mainCLI dbh) sid w = Some (Some e, w') \<longrightarrow>
         main tf gf v [''open'', sid] w =
           (1, w'\<lparr>stderr := stderr w' @ [''Error opening item: '' @ Error e @ [CHR 0x0A]]\<rparr>)) \<and>
      (\<forall>e w'. Reference (mainCLI dbh) sid w = Some (Some e, w') \<longrightarrow>
         main tf gf v [''reference'', sid] w =
           (1, w'\<lparr>stderr := stderr w' @
                  [''Error generating reference: '' @ Error e @ [CHR 0x0A]]\<rparr>)))"
proof (intro conjI)
  show "\<forall>dbh. sql_Open w ''sqlite3'' ''/Users/vania/data/zotero/zotero.sqlite'' = Inr dbh \<longrightarrow>
      (\<forall>e w'. List (mainCLI dbh) tf gf v w = Some (Some e, w') \<longrightarrow>
         main tf gf v [] w =
           (1, w'\<lparr>stderr := stderr w' @ [''Error listing items: '' @ Error e @ [CHR 0x0A]]\<rparr>)) \<and>
      (\<forall>e w'. Open (mainCLI dbh) sid w = Some (Some e, w') \<longrightarrow>
         main tf gf v [''open'', sid] w =
           (1, w'\<lparr>stderr := stderr w' @ [''Error opening item: '' @ Error e @ [CHR 0x0A]]\<rparr>)) \<and>
      (\<forall>e w'. Reference (mainCLI dbh) sid w = Some (Some e, w') \<longrightarrow>
         main tf gf v [''reference'', sid] w =
           (1, w'\<lparr>stderr := stderr w' @
                  [''Error generating reference: '' @ Error e @ [CHR 0x0A]]\<rparr>))"
    by (intro allI impI conjI) (simp_all add: main_fatal)
qed (rule GetByStableID_fst ListItems_result List_result Open_result Reference_result
       Error_Errorf_w | simp add: Errorf_s_def)+


theorem errors_reach_the_entry_point_witness:
  "sql_Open (exampleWorld noDB) ''sqlite3'' ''/Users/vania/data/zotero/zotero.sqlite'' = Inr noDB \<and>
   Open (mainCLI noDB) ''ABCD1234'' (exampleWorld noDB) =
     Some (Some (Errorf_w ''getting item: '' (Errorf_w ''fetching item: '' ErrNoRows)),
           (exampleWorld noDB)\<lparr>database := ()\<rparr>) \<and>
   fst (main [] [] False [''open'', ''ABCD1234''] (exampleWorld noDB)) = 1 \<and>
   stderr (snd (main [] [] False [''open'', ''ABCD1234''] (exampleWorld noDB))) =
     [''Error opening item: getting item: fetching item: sql: no rows in result set'' @ [CHR 0x0A]] \<and>
   stdout (snd (main [] [] False [''open'', ''ABCD1234''] (exampleWorld noDB))) = [] \<and>
   launched (snd (main [] [] False [''open'', ''ABCD1234''] (exampleWorld noDB))) = []"
proof -
  note t = errors_reach_the_entry_point
             [of "repo (mainCLI noDB)" "''ABCD1234''" "()" "[]" "[]" "mainCLI noDB" False
                 "exampleWorld noDB" "[]" ErrNoRows]
  note t_open = t [THEN conjunct2, THEN conjunct2, THEN conjunct2, THEN conjunct1]
  note t_main = t [THEN conjunct2, THEN conjunct2, THEN conjunct2, THEN conjunct2,
                   THEN conjunct2, THEN conjunct2, THEN conjunct2, THEN conjunct2]
  have o: "sql_Open (exampleWorld noDB) ''sqlite3'' ''/Users/vania/data/zotero/zotero.sqlite'' = Inr noDB"
    by (simp add: exampleWorld_def)
  have q: "QueryRow_Scan (fst (db (repo (mainCLI noDB)) getQuery [''ABCD1234'']
             (database (exampleWorld noDB)))) = Inl ErrNoRows"
    by (simp add: mainCLI_def NewCLI_def NewRepository_def noDB_def QueryRow_Scan_def)
  have s: "snd (db (repo (mainCLI noDB)) getQuery [''ABCD1234''] (database (exampleWorld noDB))) = ()"
    by simp
  from t_open have p: "Open (mainCLI noDB) ''ABCD1234'' (exampleWorld noDB) =
     Some (Some (Errorf_w ''getting item: '' (Errorf_w ''fetching item: '' ErrNoRows)),
           (exampleWorld noDB)\<lparr>database := ()\<rparr>)"
    unfolding q s by simp
  from t_main o p have m: "main [] [] False [''open'', ''ABCD1234''] (exampleWorld noDB) =
      (1, (exampleWorld noDB)\<lparr>database := (),
             stderr := stderr ((exampleWorld noDB)\<lparr>database := ()\<rparr>) @
               [''Error opening item: '' @
                Error (Errorf_w ''getting item: '' (Errorf_w ''fetching item: '' ErrNoRows)) @
                [CHR 0x0A]]\<rparr>)"
    by simp
  show ?thesis
    unfolding m using o p by (simp add: Error_Errorf_w ErrNoRows_def exampleWorld_def)
qed

section \<open>The statements that reach the database (claim C6)\<close>


lemma listQuery_cases:
  "listQuery [] [] = baseQuery @ '' GROUP BY i.itemID''"
  "tf \<noteq> [] \<Longrightarrow> listQuery tf [] = baseQuery @ '' AND idv.value LIKE ? GROUP BY i.itemID''"
  "gf \<noteq> [] \<Longrightarrow> listQuery [] gf = baseQuery @ '' AND t.name LIKE ? GROUP BY i.itemID''"
  "tf \<noteq> [] \<Longrightarrow> gf \<noteq> [] \<Longrightarrow>
     listQuery tf gf = baseQuery @ '' AND idv.value LIKE ? AND t.name LIKE ? GROUP BY i.itemID''"
  by (simp_all add: listQuery_def listConditions_def)

lemma is_select_texts:
  "is_select (baseQuery @ '' AND i.key = ? GROUP BY i.itemID'')"
  "is_select (baseQuery @ '' GROUP BY i.itemID'')"
  "is_select (baseQuery @ '' AND idv.value LIKE ? GROUP BY i.itemID'')"
  "is_select (baseQuery @ '' AND t.name LIKE ? GROUP BY i.itemID'')"
  "is_select (baseQuery @ '' AND idv.value LIKE ? AND t.name LIKE ? GROUP BY i.itemID'')"
  by code_simp+

lemma is_select_getQuery: "is_select getQuery"
  by (simp add: getQuery_def is_select_texts)

lemma is_select_listQuery: "is_select (listQuery tf gf)"
  by (cases "tf = []"; cases "gf = []") (simp_all add: listQuery_cases is_select_texts)

lemma answer_state: "snd (answer d conds) = d"
  by (simp add: answer_def)

lemma sqlite_state: "snd (sqlite query args d) = d"
  by (simp add: sqlite_def answer_state)

lemma sqlite_list:
  "sqlite (listQuery tf gf) (listArgs tf gf) d = answer d (listConds tf gf)"
  by (cases "tf = []"; cases "gf = []")
     (simp_all add: listQuery_cases listArgs_def listConds_def sqlite_def)

lemma sqlite_get: "sqlite getQuery [sid] d = answer d [KeyIs sid]"
  by (simp add: getQuery_def sqlite_def)



text \<open>
  Claim C6. Each of the two repository operations sends one statement to the
  database: the text is \<open>baseQuery\<close> with fixed additions, the values of the caller
  travel as bound arguments, and the text is a single \<open>SELECT\<close> statement. So on
  every database handle that leaves the database as it is when it runs a \<open>SELECT\<close>
  statement, and in particular on the model of SQLite, both operations leave the
  database unchanged.
\<close>

theorem repository_reads_only:
  "is_select getQuery \<and> is_select (listQuery tf gf) \<and>
   snd (GetByStableID r sid s) = snd (db r getQuery [sid] s) \<and>
   snd (ListItems r tf gf s) = snd (db r (listQuery tf gf) (listArgs tf gf) s) \<and>
   ((\<forall>query args s'. is_select query \<longrightarrow> snd (db r query args s') = s') \<longrightarrow>
      snd (GetByStableID r sid s) = s \<and> snd (ListItems r tf gf s) = s) \<and>
   snd (GetByStableID (NewRepository sqlite c) sid d) = d \<and>
   snd (ListItems (NewRepository sqlite c) tf gf d) = d"
  by (simp add: is_select_getQuery is_select_listQuery GetByStableID_state ListItems_state
      NewRepository_def sqlite_state)

theorem repository_reads_only_witness:
  "is_select getQuery \<and> is_select (listQuery ''logic'' ''types'') \<and>
   snd (GetByStableID exampleRepository ''AAAA1111'' exampleDB) = exampleDB \<and>
   snd (ListItems exampleRepository ''logic'' ''types'' exampleDB) = exampleDB"
proof -
  have h: "\<forall>query args s'. is_select query \<longrightarrow> snd (db exampleRepository query args s') = s'"
    by (simp add: exampleRepository_def NewRepository_def sqlite_state)
  from repository_reads_only [of "''logic''" "''types''" exampleRepository "''AAAA1111''" exampleDB]
    h show ?thesis by blast
qed

section \<open>\<open>LIKE\<close> with a pattern \<open>%filter%\<close>\<close>


lemma like_percent: "like_match [''%''] s"
  by (induction s) auto

lemma like_literals:
  "\<forall>p \<in> set ps. p \<noteq> ''%'' \<and> p \<noteq> ''_'' \<Longrightarrow>
     like_match (ps @ [''%'']) s \<longleftrightarrow> prefix (map (map sqlite3Tolower) ps) (map (map sqlite3Tolower) s)"
proof (induction ps arbitrary: s)
  case Nil
  then show ?case using like_percent by simp
next
  case (Cons p ps)
  then show ?case by (cases s) auto
qed

lemma like_percent_first:
  "like_match (''%'' # ps) s \<longleftrightarrow> (\<exists>k \<le> length s. like_match ps (drop k s))"
proof (induction s)
  case Nil
  then show ?case by simp
next
  case (Cons c s)
  have "(\<exists>k \<le> length (c # s). like_match ps (drop k (c # s))) \<longleftrightarrow>
        like_match ps (c # s) \<or> (\<exists>k \<le> length s. like_match ps (drop k s))"
  proof
    assume "\<exists>k \<le> length (c # s). like_match ps (drop k (c # s))"
    then obtain k where k: "k \<le> length (c # s)" "like_match ps (drop k (c # s))" by blast
    show "like_match ps (c # s) \<or> (\<exists>k \<le> length s. like_match ps (drop k s))"
    proof (cases k)
      case 0
      with k show ?thesis by simp
    next
      case (Suc j)
      with k show ?thesis by auto
    qed
  next
    assume "like_match ps (c # s) \<or> (\<exists>k \<le> length s. like_match ps (drop k s))"
    then show "\<exists>k \<le> length (c # s). like_match ps (drop k (c # s))"
    proof
      assume "like_match ps (c # s)"
      then have "like_match ps (drop 0 (c # s))" by simp
      then show ?thesis by blast
    next
      assume "\<exists>k \<le> length s. like_match ps (drop k s)"
      then obtain k where "k \<le> length s" "like_match ps (drop k s)" by blast
      then have "Suc k \<le> length (c # s)" "like_match ps (drop (Suc k) (c # s))" by simp_all
      then show ?thesis by blast
    qed
  qed
  with Cons show ?case by simp
qed

lemma sublist_drop_prefix: "sublist xs ys \<longleftrightarrow> (\<exists>k \<le> length ys. prefix xs (drop k ys))"
proof
  assume "sublist xs ys"
  then obtain ps ss where "ys = ps @ xs @ ss" by (auto simp: sublist_def)
  then have "length ps \<le> length ys" "prefix xs (drop (length ps) ys)" by simp_all
  then show "\<exists>k \<le> length ys. prefix xs (drop k ys)" by blast
next
  assume "\<exists>k \<le> length ys. prefix xs (drop k ys)"
  then obtain k ss where "drop k ys = xs @ ss" by (auto simp: prefix_def)
  then have "ys = take k ys @ xs @ ss" by (metis append_take_drop_id)
  then show "sublist xs ys" by (auto simp: sublist_def)
qed

lemma like_contains:
  assumes "\<forall>p \<in> set ps. p \<noteq> ''%'' \<and> p \<noteq> ''_''"
  shows "like_match (''%'' # ps @ [''%'']) s \<longleftrightarrow>
           sublist (map (map sqlite3Tolower) ps) (map (map sqlite3Tolower) s)"
  by (simp add: like_percent_first like_literals [OF assms] sublist_drop_prefix drop_map
      del: like_match.simps)

lemma concat_sqlite_chars: "concat (sqlite_chars s) = s"
  by (induction s rule: sqlite_chars.induct) auto

lemma takeWhile_snoc_not: "\<not> P c \<Longrightarrow> takeWhile P (bs @ [c]) = takeWhile P bs"
  by (induction bs) auto

lemma dropWhile_snoc_not: "\<not> P c \<Longrightarrow> dropWhile P (bs @ [c]) = dropWhile P bs @ [c]"
  by (induction bs) auto

lemma sqlite_chars_snoc:
  "\<not> is_continuation c \<Longrightarrow> (of_char c :: nat) < 0xC0 \<Longrightarrow>
     sqlite_chars (s @ [c]) = sqlite_chars s @ [[c]]"
proof (induction s rule: sqlite_chars.induct)
  case 1
  then show ?case by simp
next
  case (2 b bs)
  show ?case
  proof (cases "(of_char b :: nat) \<ge> 0xC0")
    case True
    have tw: "takeWhile is_continuation (bs @ [c]) = takeWhile is_continuation bs"
      using "2.prems" by (simp add: takeWhile_snoc_not)
    have dw: "dropWhile is_continuation (bs @ [c]) = dropWhile is_continuation bs @ [c]"
      using "2.prems" by (simp add: dropWhile_snoc_not)
    from True "2.IH"(1) "2.prems" show ?thesis by (simp add: tw dw)
  next
    case False
    with "2.IH"(2) "2.prems" show ?thesis by simp
  qed
qed

lemma sqlite_chars_pattern:
  "sqlite_chars (CHR ''%'' # f @ ''%'') = ''%'' # sqlite_chars f @ [''%'']"
proof -
  have "sqlite_chars (f @ ''%'') = sqlite_chars f @ [''%'']"
    by (rule sqlite_chars_snoc) (simp_all add: is_continuation_def)
  then show ?thesis by simp
qed

lemma no_wildcard_chars:
  assumes "CHR ''%'' \<notin> set f" and "CHR ''_'' \<notin> set f"
  shows "\<forall>p \<in> set (sqlite_chars f). p \<noteq> ''%'' \<and> p \<noteq> ''_''"
proof
  fix p assume "p \<in> set (sqlite_chars f)"
  then have "set p \<subseteq> set (concat (sqlite_chars f))" by auto
  then have "set p \<subseteq> set f" by (simp add: concat_sqlite_chars)
  with assms show "p \<noteq> ''%'' \<and> p \<noteq> ''_''" by auto
qed

lemma sql_like_contains:
  assumes "CHR ''%'' \<notin> set f" and "CHR ''_'' \<notin> set f"
  shows "sql_like v (''%'' @ f @ ''%'') \<longleftrightarrow> (case v of None \<Rightarrow> False | Some x \<Rightarrow> contains_ci f x)"
  using like_contains [OF no_wildcard_chars [OF assms]]
  by (simp add: sql_like_def sqlite_chars_pattern contains_ci_def fold_chars_def
      del: like_match.simps sqlite_chars.simps split: option.splits)

end
